theory Spec2Isabelle
  imports Main "HOL-Library.Sublist"
begin

section \<open>Data model (src/lib/contracts.ts, src/hooks/useClaims.ts)\<close>

type_synonym Address = string

text \<open>
  \<^verbatim>\<open>export enum BountyState { OPEN = 0, VOTING = 1, CLOSED = 2, CANCELLED = 3 }\<close>
  A TypeScript numeric enum is a number at run time, and the hooks obtain it by the
  unchecked cast \<^verbatim>\<open>(state ?? 0) as BountyState\<close>, so the state is a number here.
\<close>

type_synonym BountyState = nat

definition OPEN :: BountyState where "OPEN = 0"
definition VOTING :: BountyState where "VOTING = 1"
definition CLOSED :: BountyState where "CLOSED = 2"
definition CANCELLED :: BountyState where "CANCELLED = 3"

text \<open>\<^verbatim>\<open>BountyData\<close> as \<^verbatim>\<open>useBountiesData\<close> builds it (no metadata field yet).\<close>

record BountyData =
  address :: Address
  issuer :: Address
  metadataURI :: string
  state :: BountyState
  joinable :: bool
  totalStaked :: int
  claimsCount :: int

text \<open>\<^verbatim>\<open>{ ...bounty, metadata: ... }\<close>: the document type \<open>'j\<close> is whatever JSON the
  gateway returned (\<^verbatim>\<open>as T\<close> is unchecked); \<open>None\<close> is \<^verbatim>\<open>null\<close>.\<close>

record 'j BountyWithMetadata = BountyData +
  metadata :: "'j option"

record VoteState =
  claimId :: int
  yes :: int
  no :: int
  deadline :: int
  votingRound :: int

record 'j Bounty = "'j BountyWithMetadata" +
  currentVote :: "VoteState option"

section \<open>The many-bounties projection: \<^verbatim>\<open>useBountiesData\<close> (src/hooks/useClaims.ts)\<close>

text \<open>
  The batch read returns one entry per contract call; \<^verbatim>\<open>data[k]?.result\<close> is the decoded
  value or \<^verbatim>\<open>undefined\<close> when that read failed. The decoded value has the type the ABI
  gives the called function; a value of another type cannot come out of the decoder, and
  the projections below give \<^verbatim>\<open>undefined\<close> for it.
\<close>

datatype abi_value =
    AbiAddress Address
  | AbiString string
  | AbiUint8 nat
  | AbiBool bool
  | AbiUint256 int

definition result_at :: "abi_value option list \<Rightarrow> nat \<Rightarrow> abi_value option" where
  "result_at data k = (if k < length data then data ! k else None)"

fun as_address :: "abi_value option \<Rightarrow> Address option" where
  "as_address (Some (AbiAddress a)) = Some a"
| "as_address _ = None"

fun as_string :: "abi_value option \<Rightarrow> string option" where
  "as_string (Some (AbiString s)) = Some s"
| "as_string _ = None"

fun as_number :: "abi_value option \<Rightarrow> nat option" where
  "as_number (Some (AbiUint8 n)) = Some n"
| "as_number _ = None"

fun as_boolean :: "abi_value option \<Rightarrow> bool option" where
  "as_boolean (Some (AbiBool b)) = Some b"
| "as_boolean _ = None"

fun as_bigint :: "abi_value option \<Rightarrow> int option" where
  "as_bigint (Some (AbiUint256 n)) = Some n"
| "as_bigint _ = None"

text \<open>The nullish coalescing operator \<^verbatim>\<open>x ?? d\<close>.\<close>

definition nullish :: "'a option \<Rightarrow> 'a \<Rightarrow> 'a" where
  "nullish x d = (case x of None \<Rightarrow> d | Some v \<Rightarrow> v)"

text \<open>The body of the \<^verbatim>\<open>for\<close> loop of \<^verbatim>\<open>useBountiesData\<close> for index \<open>i\<close>:
  \<open>None\<close> when nothing is pushed.\<close>

definition parseBounty :: "Address list \<Rightarrow> abi_value option list \<Rightarrow> nat \<Rightarrow> BountyData option" where
  "parseBounty addresses data i =
     (let baseIndex = i * 6;
          issuer = as_address (result_at data baseIndex);
          metadataURI = as_string (result_at data (baseIndex + 1));
          state = as_number (result_at data (baseIndex + 2));
          joinable = as_boolean (result_at data (baseIndex + 3));
          totalStaked = as_bigint (result_at data (baseIndex + 4));
          claimsCount = as_bigint (result_at data (baseIndex + 5))
      in case issuer of
           None \<Rightarrow> None
         | Some iss \<Rightarrow>
             Some \<lparr> address = addresses ! i,
                    issuer = iss,
                    metadataURI = nullish metadataURI [],
                    state = nullish state 0,
                    joinable = nullish joinable False,
                    totalStaked = nullish totalStaked 0,
                    claimsCount = nullish claimsCount 0 \<rparr>)"

definition push_bounty :: "Address list \<Rightarrow> abi_value option list \<Rightarrow> nat \<Rightarrow> BountyData list \<Rightarrow> BountyData list" where
  "push_bounty addresses data i bounties =
     (case parseBounty addresses data i of
        None \<Rightarrow> bounties
      | Some b \<Rightarrow> bounties @ [b])"

text \<open>\<^verbatim>\<open>if (data) { for (let i = 0; i < addresses.length; i++) ... }\<close>\<close>

definition useBountiesData :: "Address list \<Rightarrow> abi_value option list option \<Rightarrow> BountyData list" where
  "useBountiesData addresses data =
     (case data of
        None \<Rightarrow> []
      | Some d \<Rightarrow> fold (push_bounty addresses d) [0..<length addresses] [])"

text \<open>The bounty object \<^verbatim>\<open>useBounty\<close> returns in live mode, from its seven single reads
  and the metadata query (\<^verbatim>\<open>address && issuer !== undefined ? {...} : null\<close>).\<close>

definition truthy_string :: "string option \<Rightarrow> bool" where
  "truthy_string s = (case s of None \<Rightarrow> False | Some v \<Rightarrow> v \<noteq> [])"

definition vote_of_tuple :: "int \<times> int \<times> int \<times> int \<times> int \<Rightarrow> VoteState" where
  "vote_of_tuple t =
     (case t of (c, y, n, d, r) \<Rightarrow>
        \<lparr> claimId = c, yes = y, no = n, deadline = d, votingRound = r \<rparr>)"

definition useBounty_live ::
  "Address option \<Rightarrow> Address option \<Rightarrow> string option \<Rightarrow> nat option \<Rightarrow> bool option \<Rightarrow>
   int option \<Rightarrow> int option \<Rightarrow> (int \<times> int \<times> int \<times> int \<times> int) option \<Rightarrow> 'j option \<Rightarrow>
   'j Bounty option" where
  "useBounty_live addr issuer_r metadataURI_r state_r joinable_r totalStaked_r claimsCount_r
       currentVote_r metadata_r =
     (if truthy_string addr \<and> issuer_r \<noteq> None then
        Some \<lparr> address = the addr,
               issuer = the issuer_r,
               metadataURI = nullish metadataURI_r [],
               state = nullish state_r 0,
               joinable = nullish joinable_r False,
               totalStaked = nullish totalStaked_r 0,
               claimsCount = nullish claimsCount_r 0,
               metadata = metadata_r,
               currentVote = map_option vote_of_tuple currentVote_r \<rparr>
      else None)"

text \<open>A batch of three addresses: the issuer read of the second fails and it is left
  out; every read but the issuer's fails for the third and it is reported as OPEN.\<close>

definition sample_addresses :: "Address list" where
  "sample_addresses = [''0xb1'', ''0xb2'', ''0xb3'']"

definition sample_reads :: "abi_value option list" where
  "sample_reads =
     [Some (AbiAddress ''0xa1''), Some (AbiString ''ipfs://Qm1''), Some (AbiUint8 1),
      Some (AbiBool True), Some (AbiUint256 5), Some (AbiUint256 2),
      None, Some (AbiString ''ipfs://Qm2''), Some (AbiUint8 2),
      Some (AbiBool True), Some (AbiUint256 7), Some (AbiUint256 1),
      Some (AbiAddress ''0xa3''), None, None, None, None, None]"

section \<open>Metadata resolution: \<^verbatim>\<open>fetchFromIPFS\<close> (src/lib/ipfs.ts)\<close>

text \<open>A thrown value: an \<^verbatim>\<open>Error\<close> with its message, or anything else.\<close>

datatype thrown = Error string | NotAnError

text \<open>What the code reads of a \<^verbatim>\<open>Response\<close>: \<^verbatim>\<open>response.ok\<close> and the outcome of
  \<^verbatim>\<open>await response.json()\<close>, which rejects on a body that is not JSON.\<close>

record 'j response =
  ok :: bool
  json :: "thrown + 'j"

text \<open>The runtime the function calls into: \<^verbatim>\<open>fetch(url)\<close> resolves to a response or
  rejects (network failure, timeout); \<^verbatim>\<open>encodeURIComponent\<close> returns the encoded string
  or throws \<^verbatim>\<open>URIError\<close>. Within one batch the outcome of a request is taken to depend
  on its URL only.\<close>

record 'j ipfs_env =
  fetch :: "string \<Rightarrow> thrown + 'j response"
  encodeURIComponent :: "string \<Rightarrow> thrown + string"

definition startsWith :: "string \<Rightarrow> string \<Rightarrow> bool" where
  "startsWith s p = prefix p s"

text \<open>\<^verbatim>\<open>s.replace(pat, rep)\<close> with a string pattern: the first occurrence only.\<close>

fun replace_first :: "string \<Rightarrow> string \<Rightarrow> string \<Rightarrow> string" where
  "replace_first pat rep [] = (if pat = [] then rep else [])"
| "replace_first pat rep (x # xs) =
     (if prefix pat (x # xs) then rep @ drop (length pat) (x # xs)
      else x # replace_first pat rep xs)"

text \<open>The character class \<^verbatim>\<open>[a-zA-Z0-9]\<close>.\<close>

definition alnum :: "char \<Rightarrow> bool" where
  "alnum c = (let n = (of_char c :: nat) in
     (97 \<le> n \<and> n \<le> 122) \<or> (65 \<le> n \<and> n \<le> 90) \<or> (48 \<le> n \<and> n \<le> 57))"

text \<open>\<^verbatim>\<open>uri.match(/\/ipfs\/([a-zA-Z0-9]+)/)\<close>: the leftmost position where \<^verbatim>\<open>/ipfs/\<close> is
  followed by at least one alphanumeric character; the group is the longest such run.\<close>

fun match_ipfs :: "string \<Rightarrow> string option" where
  "match_ipfs [] = None"
| "match_ipfs (x # xs) =
     (if prefix ''/ipfs/'' (x # xs) \<and> takeWhile alnum (drop 6 (x # xs)) \<noteq> []
      then Some (takeWhile alnum (drop 6 (x # xs)))
      else match_ipfs xs)"

text \<open>The identifier extracted from a non-empty reference (\<^verbatim>\<open>let cid = uri; if ...\<close>);
  \<open>None\<close> is the branch that fetches the URL directly.\<close>

definition extract_cid :: "string \<Rightarrow> string option" where
  "extract_cid uri =
     (if startsWith uri ''ipfs://'' then Some (replace_first ''ipfs://'' [] uri)
      else if startsWith uri ''https://'' then match_ipfs uri
      else Some uri)"

text \<open>The body of both \<^verbatim>\<open>try\<close> blocks after the URL is known: the request is logged,
  a rejection of \<^verbatim>\<open>fetch\<close> or of \<^verbatim>\<open>response.json()\<close> propagates as \<open>Inl\<close>.\<close>

definition fetch_json ::
  "'j ipfs_env \<Rightarrow> string \<Rightarrow> string list \<Rightarrow> (thrown + 'j option) \<times> string list" where
  "fetch_json env url log =
     (case fetch env url of
        Inl e \<Rightarrow> (Inl e, log @ [url])
      | Inr r \<Rightarrow>
          if \<not> ok r then (Inr None, log @ [url])
          else (case json r of
                  Inl e \<Rightarrow> (Inl e, log @ [url])
                | Inr d \<Rightarrow> (Inr (Some d), log @ [url])))"

text \<open>\<^verbatim>\<open>catch { return null; }\<close>\<close>

definition catch_null :: "thrown + 'a option \<Rightarrow> thrown + 'a option" where
  "catch_null r = (case r of Inl e \<Rightarrow> Inr None | Inr v \<Rightarrow> Inr v)"

definition api_lookup ::
  "'j ipfs_env \<Rightarrow> string \<Rightarrow> string list \<Rightarrow> (thrown + 'j option) \<times> string list" where
  "api_lookup env cid log =
     (case encodeURIComponent env cid of
        Inl e \<Rightarrow> (catch_null (Inl e), log)
      | Inr c \<Rightarrow>
          (case fetch_json env (''/api/ipfs/'' @ c) log of
             (r, log') \<Rightarrow> (catch_null r, log')))"

text \<open>\<^verbatim>\<open>fetchFromIPFS(uri)\<close>: the settled promise (\<open>Inl\<close> a rejection) and the requests
  issued, appended to \<open>log\<close>.\<close>

definition fetchFromIPFS ::
  "'j ipfs_env \<Rightarrow> string \<Rightarrow> string list \<Rightarrow> (thrown + 'j option) \<times> string list" where
  "fetchFromIPFS env uri log =
     (if uri = [] then (Inr None, log)
      else (case extract_cid uri of
              None \<Rightarrow>
                (case fetch_json env uri log of (r, log') \<Rightarrow> (catch_null r, log'))
            | Some cid \<Rightarrow> api_lookup env cid log))"

definition toIPFSUri :: "string \<Rightarrow> string" where
  "toIPFSUri cid = (if startsWith cid ''ipfs://'' then cid else ''ipfs://'' @ cid)"

section \<open>Listing bounties with metadata: \<^verbatim>\<open>useBounties\<close> (src/hooks/useClaims.ts)\<close>

text \<open>One callback of \<^verbatim>\<open>Promise.all(bounties.map(async (bounty) => ...))\<close>. The state is
  the first rejection (if any), the \<^verbatim>\<open>Map\<close> and the request log. A rejecting callback
  rejects the whole \<^verbatim>\<open>Promise.all\<close> but does not stop the other callbacks.\<close>

definition metadata_step ::
  "'j ipfs_env \<Rightarrow> 'a BountyData_scheme \<Rightarrow>
   thrown option \<times> (string \<rightharpoonup> 'j option) \<times> string list \<Rightarrow>
   thrown option \<times> (string \<rightharpoonup> 'j option) \<times> string list" where
  "metadata_step env bounty st =
     (case st of (err, m, log) \<Rightarrow>
        if metadataURI bounty \<noteq> [] then
          (case fetchFromIPFS env (metadataURI bounty) log of
             (Inl e, log') \<Rightarrow> ((if err = None then Some e else err), m, log')
           | (Inr md, log') \<Rightarrow> (err, m(metadataURI bounty \<mapsto> md), log'))
        else (err, m, log))"

definition metadata_queryFn ::
  "'j ipfs_env \<Rightarrow> 'a BountyData_scheme list \<Rightarrow> (thrown + (string \<rightharpoonup> 'j option)) \<times> string list" where
  "metadata_queryFn env bounties =
     (case fold (metadata_step env) bounties (None, Map.empty, []) of
        (err, m, log) \<Rightarrow> ((case err of Some e \<Rightarrow> Inl e | None \<Rightarrow> Inr m), log))"

text \<open>The query's \<^verbatim>\<open>data\<close> once it has settled: \<^verbatim>\<open>undefined\<close> when the query is disabled
  (\<^verbatim>\<open>enabled: bounties.length > 0\<close>) or has failed.\<close>

definition metadataMap_of ::
  "'j ipfs_env \<Rightarrow> 'a BountyData_scheme list \<Rightarrow> (string \<rightharpoonup> 'j option) option" where
  "metadataMap_of env bounties =
     (if bounties = [] then None
      else (case fst (metadata_queryFn env bounties) of Inl e \<Rightarrow> None | Inr m \<Rightarrow> Some m))"

text \<open>\<^verbatim>\<open>metadataMap?.get(key) ?? null\<close>\<close>

definition map_get_or_null :: "(string \<rightharpoonup> 'j option) option \<Rightarrow> string \<Rightarrow> 'j option" where
  "map_get_or_null mm key =
     (case mm of None \<Rightarrow> None
      | Some m \<Rightarrow> (case m key of None \<Rightarrow> None | Some v \<Rightarrow> v))"

definition with_metadata :: "BountyData \<Rightarrow> 'j option \<Rightarrow> 'j BountyWithMetadata" where
  "with_metadata bounty md = BountyData.extend bounty (BountyWithMetadata.fields md)"

text \<open>The live branch of \<^verbatim>\<open>useBounties\<close>, after the reads and the metadata query have
  settled: the merged list \<^verbatim>\<open>bountiesWithMetadata\<close>.\<close>

definition useBounties_live ::
  "'j ipfs_env \<Rightarrow> Address list \<Rightarrow> abi_value option list option \<Rightarrow> 'j BountyWithMetadata list" where
  "useBounties_live env addresses data =
     (let bounties = useBountiesData addresses data;
          metadataMap = metadataMap_of env bounties
      in map (\<lambda>bounty. with_metadata bounty (map_get_or_null metadataMap (metadataURI bounty)))
           bounties)"

section \<open>Claims with proofs: \<^verbatim>\<open>useClaims\<close> (src/hooks/useClaims.ts)\<close>

record ClaimData =
  claim_id :: nat
  claimant :: Address
  name :: string
  proofURI :: string

record 'j ClaimWithProof = ClaimData +
  proof_doc :: "'j option"

text \<open>\<^verbatim>\<open>for (let i = 0; i < claimsData.length; i++) { ... if (result) claims.push(...) }\<close>\<close>

definition push_claim ::
  "(Address \<times> string \<times> string) option list \<Rightarrow> nat \<Rightarrow> ClaimData list \<Rightarrow> ClaimData list" where
  "push_claim claimsData i claims =
     (case claimsData ! i of
        None \<Rightarrow> claims
      | Some (c, n, p) \<Rightarrow>
          claims @ [\<lparr> claim_id = i, claimant = c, name = n, proofURI = p \<rparr>])"

definition parse_claims :: "(Address \<times> string \<times> string) option list option \<Rightarrow> ClaimData list" where
  "parse_claims claimsData =
     (case claimsData of
        None \<Rightarrow> []
      | Some d \<Rightarrow> fold (push_claim d) [0..<length d] [])"

text \<open>One callback of the proof query: here the call is wrapped in
  \<^verbatim>\<open>try { ... map.set(uri, proof) } catch { map.set(uri, null) }\<close>.\<close>

definition proof_step ::
  "'j ipfs_env \<Rightarrow> 'a ClaimData_scheme \<Rightarrow>
   (string \<rightharpoonup> 'j option) \<times> string list \<Rightarrow> (string \<rightharpoonup> 'j option) \<times> string list" where
  "proof_step env claim st =
     (case st of (m, log) \<Rightarrow>
        if proofURI claim \<noteq> [] then
          (case fetchFromIPFS env (proofURI claim) log of
             (Inl e, log') \<Rightarrow> (m(proofURI claim \<mapsto> None), log')
           | (Inr proof, log') \<Rightarrow> (m(proofURI claim \<mapsto> proof), log'))
        else (m, log))"

definition proof_queryFn ::
  "'j ipfs_env \<Rightarrow> 'a ClaimData_scheme list \<Rightarrow> (string \<rightharpoonup> 'j option) \<times> string list" where
  "proof_queryFn env claims = fold (proof_step env) claims (Map.empty, [])"

definition proofMap_of ::
  "'j ipfs_env \<Rightarrow> 'a ClaimData_scheme list \<Rightarrow> (string \<rightharpoonup> 'j option) option" where
  "proofMap_of env claims =
     (if claims = [] then None else Some (fst (proof_queryFn env claims)))"

definition with_proof :: "ClaimData \<Rightarrow> 'j option \<Rightarrow> 'j ClaimWithProof" where
  "with_proof claim p = ClaimData.extend claim (ClaimWithProof.fields p)"

definition useClaims_live ::
  "'j ipfs_env \<Rightarrow> (Address \<times> string \<times> string) option list option \<Rightarrow> 'j ClaimWithProof list" where
  "useClaims_live env claimsData =
     (let claims = parse_claims claimsData;
          proofMap = proofMap_of env claims
      in map (\<lambda>claim. with_proof claim (map_get_or_null proofMap (proofURI claim))) claims)"

text \<open>What a reference resolves to in the environment, and the requests one resolution
  issues.\<close>

definition resolved :: "'j ipfs_env \<Rightarrow> string \<Rightarrow> 'j option" where
  "resolved env uri = (case fst (fetchFromIPFS env uri []) of Inl e \<Rightarrow> None | Inr v \<Rightarrow> v)"

definition requests :: "'j ipfs_env \<Rightarrow> string \<Rightarrow> string list" where
  "requests env uri = snd (fetchFromIPFS env uri [])"

text \<open>A sample environment: one identifier resolves to the document \<open>7\<close>, one gets a
  non-OK response, every other request fails at the network; identifiers without
  reserved characters are encoded as themselves.\<close>

definition sample_fetch :: "string \<Rightarrow> thrown + nat response" where
  "sample_fetch url =
     (if url = ''/api/ipfs/QmGood'' then Inr \<lparr> ok = True, json = Inr 7 \<rparr>
      else if url = ''/api/ipfs/QmBad'' then Inr \<lparr> ok = False, json = Inl (Error ''no body'') \<rparr>
      else Inl (Error ''Failed to fetch''))"

definition sample_env :: "nat ipfs_env" where
  "sample_env = \<lparr> fetch = sample_fetch, encodeURIComponent = Inr \<rparr>"

text \<open>The content of the \<^verbatim>\<open>Map\<close> a query builds for a set of references: one entry per
  non-empty reference.\<close>

definition uri_map :: "'j ipfs_env \<Rightarrow> string set \<Rightarrow> (string \<rightharpoonup> 'j option)" where
  "uri_map env U = (\<lambda>u. if u \<in> U \<and> u \<noteq> [] then Some (resolved env u) else None)"

text \<open>A request that does not produce a document: \<^verbatim>\<open>fetch\<close> rejects, the response is not
  OK, or its body does not parse.\<close>

definition request_fails :: "'j ipfs_env \<Rightarrow> string \<Rightarrow> bool" where
  "request_fails env url =
     (case fetch env url of
        Inl e \<Rightarrow> True
      | Inr r \<Rightarrow> \<not> ok r \<or> (case json r of Inl e \<Rightarrow> True | Inr d \<Rightarrow> False))"

text \<open>A well-formed content identifier, as the pattern \<^verbatim>\<open>[a-zA-Z0-9]+\<close> of the source
  has it.\<close>

definition is_cid :: "string \<Rightarrow> bool" where
  "is_cid c = (c \<noteq> [] \<and> list_all alnum c)"

definition sample_reads_meta :: "abi_value option list" where
  "sample_reads_meta =
     [Some (AbiAddress ''0xa1''), Some (AbiString ''ipfs://QmGone''), Some (AbiUint8 0),
      Some (AbiBool True), Some (AbiUint256 5), Some (AbiUint256 0),
      Some (AbiAddress ''0xa2''), Some (AbiString ''ipfs://QmGood''), Some (AbiUint8 0),
      Some (AbiBool True), Some (AbiUint256 7), Some (AbiUint256 1),
      Some (AbiAddress ''0xa3''), Some (AbiString ''ipfs://QmBad''), Some (AbiUint8 0),
      Some (AbiBool False), Some (AbiUint256 1), Some (AbiUint256 0)]"

definition sample_claims :: "(Address \<times> string \<times> string) option list" where
  "sample_claims =
     [Some (''0xc1'', ''first'', ''QmGood''), None, Some (''0xc3'', ''third'', ''ipfs://QmBad'')]"

definition sample_bounty :: "Address \<Rightarrow> string \<Rightarrow> BountyData" where
  "sample_bounty a u =
     \<lparr> address = a, issuer = ''0xa1'', metadataURI = u, state = 0, joinable = True,
       totalStaked = 1, claimsCount = 0 \<rparr>"

definition sample_claim :: "nat \<Rightarrow> string \<Rightarrow> ClaimData" where
  "sample_claim i u = \<lparr> claim_id = i, claimant = ''0xc1'', name = ''done'', proofURI = u \<rparr>"

text \<open>Two bounties (and two claims) that share one reference, and a third item.\<close>

definition shared_uri_bounties :: "BountyData list" where
  "shared_uri_bounties =
     [sample_bounty ''0xb1'' ''ipfs://QmGood'', sample_bounty ''0xb2'' ''ipfs://QmGood'',
      sample_bounty ''0xb3'' []]"

definition shared_uri_claims :: "ClaimData list" where
  "shared_uri_claims = [sample_claim 0 ''ipfs://QmGood'', sample_claim 1 ''ipfs://QmGood'']"

section \<open>The metadata endpoint: \<^verbatim>\<open>GET /api/ipfs/[cid]\<close> (src/unnamed/part_000)\<close>

definition IPFS_GATEWAYS :: "string list" where
  "IPFS_GATEWAYS =
     [''https://gateway.pinata.cloud/ipfs'', ''https://ipfs.io/ipfs'',
      ''https://cloudflare-ipfs.com/ipfs'']"

text \<open>\<^verbatim>\<open>const CACHE_TTL = 5 * 60 * 1000; // 5 minutes\<close>, in milliseconds.\<close>

definition CACHE_TTL :: int where
  "CACHE_TTL = 5 * 60 * 1000"

text \<open>\<^verbatim>\<open>const cache = new Map<string, { data: unknown; timestamp: number }>()\<close>\<close>

record 'j cache_entry =
  data :: 'j
  timestamp :: int

type_synonym 'j cache = "string \<rightharpoonup> 'j cache_entry"

text \<open>One upstream request: the URL, the \<^verbatim>\<open>Accept\<close> header and the time after which
  \<^verbatim>\<open>AbortSignal.timeout\<close> aborts it (the fetch then rejects).\<close>

record gateway_request =
  url :: string
  accept :: string
  timeout_ms :: nat

text \<open>The server's surroundings during one request: the outcome of each upstream request
  and the two readings of \<^verbatim>\<open>Date.now()\<close>, at the cache check and at \<^verbatim>\<open>cache.set\<close>.\<close>

record 'j server_env =
  gateway_fetch :: "gateway_request \<Rightarrow> thrown + 'j response"
  now_check :: int
  now_store :: int

datatype 'j reply_body = Document 'j | ErrorBody string

record 'j http_reply =
  status :: nat
  body :: "'j reply_body"

definition gateway_req :: "string \<Rightarrow> string \<Rightarrow> gateway_request" where
  "gateway_req cid gateway =
     \<lparr> url = gateway @ ''/'' @ cid, accept = ''application/json'', timeout_ms = 10000 \<rparr>"

text \<open>\<^verbatim>\<open>for (const gateway of IPFS_GATEWAYS) { try { ... } catch (error) { lastError = error; continue; } }\<close>
  The result is the document returned from inside the loop (\<open>None\<close> when the loop
  runs out), the cache, the requests made and \<^verbatim>\<open>lastError\<close>.\<close>

fun try_gateways ::
  "'j server_env \<Rightarrow> string \<Rightarrow> string list \<Rightarrow> 'j cache \<Rightarrow> gateway_request list \<Rightarrow> thrown option \<Rightarrow>
   'j option \<times> 'j cache \<times> gateway_request list \<times> thrown option" where
  "try_gateways env cid [] cache log lastError = (None, cache, log, lastError)"
| "try_gateways env cid (gateway # gateways) cache log lastError =
     (case gateway_fetch env (gateway_req cid gateway) of
        Inl e \<Rightarrow> try_gateways env cid gateways cache (log @ [gateway_req cid gateway]) (Some e)
      | Inr r \<Rightarrow>
          if ok r then
            (case json r of
               Inl e \<Rightarrow>
                 try_gateways env cid gateways cache (log @ [gateway_req cid gateway]) (Some e)
             | Inr d \<Rightarrow>
                 (Some d, cache(cid \<mapsto> \<lparr> data = d, timestamp = now_store env \<rparr>),
                  log @ [gateway_req cid gateway], lastError))
          else try_gateways env cid gateways cache (log @ [gateway_req cid gateway]) lastError)"

text \<open>The handler: the reply, the cache afterwards and the upstream requests made.
  \<open>params\<close> is the settled \<^verbatim>\<open>await params\<close>; its rejection is what reaches the outer
  \<^verbatim>\<open>catch\<close>.\<close>

definition GET ::
  "'j server_env \<Rightarrow> thrown + string \<Rightarrow> 'j cache \<Rightarrow> 'j http_reply \<times> 'j cache \<times> gateway_request list" where
  "GET env params cache =
     (case params of
        Inl e \<Rightarrow> (\<lparr> status = 500, body = ErrorBody ''Internal server error'' \<rparr>, cache, [])
      | Inr cid \<Rightarrow>
          if cid = [] then (\<lparr> status = 400, body = ErrorBody ''CID is required'' \<rparr>, cache, [])
          else if (case cache cid of
                     None \<Rightarrow> False
                   | Some cached \<Rightarrow> now_check env - timestamp cached < CACHE_TTL)
          then (\<lparr> status = 200, body = Document (data (the (cache cid))) \<rparr>, cache, [])
          else (case try_gateways env cid IPFS_GATEWAYS cache [] None of
                  (Some d, cache', log, lastError) \<Rightarrow>
                    (\<lparr> status = 200, body = Document d \<rparr>, cache', log)
                | (None, cache', log, lastError) \<Rightarrow>
                    (\<lparr> status = 502, body = ErrorBody ''Failed to fetch from IPFS'' \<rparr>,
                     cache', log)))"

text \<open>The document one upstream attempt yields, \<open>None\<close> when the attempt fails (the fetch
  rejects or times out, the response is not OK, or the body does not parse).\<close>

definition attempt_result :: "'j server_env \<Rightarrow> gateway_request \<Rightarrow> 'j option" where
  "attempt_result env req =
     (case gateway_fetch env req of
        Inl e \<Rightarrow> None
      | Inr r \<Rightarrow> if ok r then (case json r of Inl e \<Rightarrow> None | Inr d \<Rightarrow> Some d) else None)"

definition uncached :: "'j server_env \<Rightarrow> 'j cache \<Rightarrow> string \<Rightarrow> bool" where
  "uncached env cache cid =
     (case cache cid of
        None \<Rightarrow> True
      | Some cached \<Rightarrow> \<not> now_check env - timestamp cached < CACHE_TTL)"

text \<open>Content addressing, as far as one identifier goes: every upstream attempt for it
  that succeeds yields the document \<open>d\<close>, and so does the cache entry, if there is one.\<close>

definition upstream_serves :: "'j server_env \<Rightarrow> string \<Rightarrow> 'j \<Rightarrow> bool" where
  "upstream_serves env cid d =
     list_all (\<lambda>g. attempt_result env (gateway_req cid g) = None
                  \<or> attempt_result env (gateway_req cid g) = Some d) IPFS_GATEWAYS"

definition cache_holds :: "'j cache \<Rightarrow> string \<Rightarrow> 'j \<Rightarrow> bool" where
  "cache_holds cache cid d =
     (case cache cid of None \<Rightarrow> True | Some cached \<Rightarrow> data cached = d)"

text \<open>A sample upstream: the first gateway times out, the second answers with the
  document \<open>42\<close> for one identifier, the third is not OK.\<close>

definition sample_gateway_fetch :: "gateway_request \<Rightarrow> thrown + nat response" where
  "sample_gateway_fetch req =
     (if url req = ''https://gateway.pinata.cloud/ipfs/QmDoc''
        then Inl (Error ''The operation was aborted due to timeout'')
      else if url req = ''https://ipfs.io/ipfs/QmDoc''
        then Inr \<lparr> ok = True, json = Inr 42 \<rparr>
      else Inr \<lparr> ok = False, json = Inl (Error ''Unexpected token'') \<rparr>)"

definition sample_server :: "int \<Rightarrow> int \<Rightarrow> nat server_env" where
  "sample_server t_check t_store =
     \<lparr> gateway_fetch = sample_gateway_fetch, now_check = t_check, now_store = t_store \<rparr>"

text \<open>What the gateway loop is to compute: the first gateway, in list order, whose
  attempt yields a document decides; the requests made are those up to and including
  it, or all of them when none succeeds.\<close>

definition gateway_spec ::
  "'j server_env \<Rightarrow> string \<Rightarrow> string list \<Rightarrow> 'j cache \<Rightarrow> gateway_request list \<Rightarrow>
   'j option \<times> 'j cache \<times> gateway_request list" where
  "gateway_spec env cid gs cache log =
     (case List.find (\<lambda>g. attempt_result env (gateway_req cid g) \<noteq> None) gs of
        None \<Rightarrow> (None, cache, log @ map (gateway_req cid) gs)
      | Some g \<Rightarrow>
          (attempt_result env (gateway_req cid g),
           cache(cid \<mapsto> \<lparr> data = the (attempt_result env (gateway_req cid g)),
                           timestamp = now_store env \<rparr>),
           log @ map (gateway_req cid)
                   (takeWhile (\<lambda>g. attempt_result env (gateway_req cid g) = None) gs @ [g])))"

definition loop_outcome ::
  "'j option \<times> 'j cache \<times> gateway_request list \<times> thrown option \<Rightarrow>
   'j option \<times> 'j cache \<times> gateway_request list" where
  "loop_outcome r = (case r of (d, c, l, e) \<Rightarrow> (d, c, l))"

section \<open>The has-voted flag: \<^verbatim>\<open>useHasVoted\<close> (src/hooks/useClaims.ts)\<close>

text \<open>\<^verbatim>\<open>String.prototype.toLowerCase\<close> on ASCII letters (addresses are hexadecimal): an
  upper-case letter becomes the letter 32 places on, that is, bit 5 is set.\<close>

definition lower_char :: "char \<Rightarrow> char" where
  "lower_char c =
     (let n = (of_char c :: nat) in
      if 65 \<le> n \<and> n \<le> 90 then
        (case c of Char b0 b1 b2 b3 b4 b5 b6 b7 \<Rightarrow> Char b0 b1 b2 b3 b4 True b6 b7)
      else c)"

definition toLowerCase :: "string \<Rightarrow> string" where
  "toLowerCase s = map lower_char s"

text \<open>\<^verbatim>\<open>mockBountyAddr(id)\<close> for the two ids the fixture uses, and the keys of
  \<^verbatim>\<open>MOCK_USER_VOTES\<close> (src/lib/mockData.ts).\<close>

definition mockBountyAddr_2 :: Address where
  "mockBountyAddr_2 = ''0x0002'' @ replicate 36 CHR ''0''"

definition mockBountyAddr_10 :: Address where
  "mockBountyAddr_10 = ''0x000a'' @ replicate 36 CHR ''0''"

definition MOCK_USER_VOTES :: "(string \<times> bool) list" where
  "MOCK_USER_VOTES =
     [(toLowerCase mockBountyAddr_2 @ ''-'' @ toLowerCase ''0x3456789012abcdef3456789012abcdef34567890'', True),
      (toLowerCase mockBountyAddr_2 @ ''-'' @ toLowerCase ''0x4567890123abcdef4567890123abcdef45678901'', False),
      (toLowerCase mockBountyAddr_10 @ ''-'' @ toLowerCase ''0x7890123456abcdef7890123456abcdef78901234'', False)]"

text \<open>
  The hook's \<^verbatim>\<open>data\<close>. \<open>demo\<close> is the module-wide flag \<^verbatim>\<open>DEMO_MODE\<close>, which selects the
  data source. \<open>chain b u r\<close> is the contract read \<^verbatim>\<open>account_Round_HasVoted(u, r)\<close> on
  bounty \<open>b\<close>: \<open>None\<close> while it has no result. The read is enabled only when all three
  arguments are there.
\<close>

definition useHasVoted ::
  "bool \<Rightarrow> (Address \<Rightarrow> Address \<Rightarrow> int \<Rightarrow> bool option) \<Rightarrow>
   Address option \<Rightarrow> Address option \<Rightarrow> int option \<Rightarrow> bool option" where
  "useHasVoted demo chain bountyAddress userAddress round =
     (if demo \<and> truthy_string bountyAddress \<and> truthy_string userAddress then
        Some (map_of MOCK_USER_VOTES
                (toLowerCase (the bountyAddress) @ ''-'' @ toLowerCase (the userAddress)) \<noteq> None)
      else if truthy_string bountyAddress \<and> truthy_string userAddress \<and> round \<noteq> None \<and> \<not> demo
        then chain (the bountyAddress) (the userAddress) (the round)
      else None)"

section \<open>The current vote: \<^verbatim>\<open>useVoteState\<close> (src/hooks/useClaims.ts)\<close>

text \<open>
  The hook's \<^verbatim>\<open>voteState\<close>. In demo mode it is a fixture chosen by
  \<^verbatim>\<open>parseInt(bountyAddress.slice(2, 6), 16)\<close> (the built-in \<^verbatim>\<open>parseInt\<close> with radix 16 is
  the parameter \<open>parseInt16\<close>, \<open>None\<close> for \<^verbatim>\<open>NaN\<close>), with a deadline counted from
  \<^verbatim>\<open>Math.floor(Date.now() / 1000)\<close> and always \<^verbatim>\<open>votingRound: 1n\<close>. In live mode it is the
  contract read \<^verbatim>\<open>currentVote\<close>, \<open>None\<close> while that has no result.
\<close>

definition useVoteState ::
  "bool \<Rightarrow> (string \<Rightarrow> int option) \<Rightarrow> int \<Rightarrow> Address option \<Rightarrow>
   (int \<times> int \<times> int \<times> int \<times> int) option \<Rightarrow> VoteState option" where
  "useVoteState demo parseInt16 t bountyAddress currentVote_data =
     (if demo \<and> truthy_string bountyAddress then
        (let bountyNum = parseInt16 (take 4 (drop 2 (the bountyAddress))) in
         if bountyNum = Some 2 then
           Some \<lparr> claimId = 0, yes = 1500000000000000000, no = 350000000000000000,
                  deadline = t div 1000 + 2 * 24 * 60 * 60, votingRound = 1 \<rparr>
         else if bountyNum = Some 10 then
           Some \<lparr> claimId = 1, yes = 500000000000000000, no = 200000000000000000,
                  deadline = t div 1000 + 12 * 60 * 60, votingRound = 1 \<rparr>
         else None)
      else if truthy_string bountyAddress \<and> \<not> demo then map_option vote_of_tuple currentVote_data
      else None)"

section \<open>What the pages offer (src/app/create/page.tsx, src/app/claim/[bountyAddress]/[claimId]/page.tsx)\<close>

text \<open>
  The values both pages derive their buttons from: \<^verbatim>\<open>isLoading\<close>
  (\<^verbatim>\<open>isLoadingBounty || isLoadingClaims\<close>), \<^verbatim>\<open>isSubmitting\<close>
  (\<^verbatim>\<open>isWriting || isConfirming\<close>), the results of \<^verbatim>\<open>useBounty\<close>, \<^verbatim>\<open>useClaims\<close>,
  \<^verbatim>\<open>useVoteState\<close>, \<^verbatim>\<open>useUserStake\<close> and \<^verbatim>\<open>useHasVoted\<close>, the acting address, the reading
  of \<^verbatim>\<open>Date.now()\<close> (milliseconds) and, on the claim page, the claim id of the route,
  \<^verbatim>\<open>parseInt(claimIdStr, 10)\<close>, which is \<open>None\<close> when that is \<^verbatim>\<open>NaN\<close>. \<^verbatim>\<open>Number(x)\<close> of a
  bigint is taken as exact (timestamps and claim ids are far below 2^53).
\<close>

record 'j page_view =
  isLoading :: bool
  isSubmitting :: bool
  bounty :: "'j Bounty option"
  claims :: "ClaimData list"
  voteState :: "VoteState option"
  userStake :: "int option"
  hasVoted :: "bool option"
  user_address :: "Address option"
  now :: int
  route_claimId :: "int option"

text \<open>
  Where a page takes those values from. Both pages call
  \<^verbatim>\<open>useVoteState(bountyAddress)\<close> and
  \<^verbatim>\<open>useHasVoted(bountyAddress, address, voteState?.votingRound)\<close>: the has-voted flag is
  asked for the round of the vote state just read. The other hook results are taken as
  they come.
\<close>

record 'j page_sources =
  DEMO_MODE :: bool
  parseInt16 :: "string \<Rightarrow> int option"
  hasVoted_read :: "Address \<Rightarrow> Address \<Rightarrow> int \<Rightarrow> bool option"
  currentVote_read :: "(int \<times> int \<times> int \<times> int \<times> int) option"
  loading :: bool
  submitting :: bool
  bounty_result :: "'j Bounty option"
  claims_result :: "ClaimData list"
  stake_result :: "int option"
  account_address :: "Address option"
  clock :: int
  bountyAddress_param :: Address
  claimId_param :: "int option"

definition page_voteState :: "'j page_sources \<Rightarrow> VoteState option" where
  "page_voteState s =
     useVoteState (DEMO_MODE s) (parseInt16 s) (clock s) (Some (bountyAddress_param s))
       (currentVote_read s)"

definition page_view_of :: "'j page_sources \<Rightarrow> 'j page_view" where
  "page_view_of s =
     \<lparr> isLoading = loading s,
       isSubmitting = submitting s,
       bounty = bounty_result s,
       claims = claims_result s,
       voteState = page_voteState s,
       userStake = stake_result s,
       hasVoted =
         useHasVoted (DEMO_MODE s) (hasVoted_read s) (Some (bountyAddress_param s))
           (account_address s) (map_option votingRound (page_voteState s)),
       user_address = account_address s,
       now = clock s,
       route_claimId = claimId_param s \<rparr>"

definition isIssuer :: "'j page_view \<Rightarrow> bool" where
  "isIssuer v =
     (case bounty v of
        None \<Rightarrow> False
      | Some b \<Rightarrow>
          truthy_string (user_address v)
          \<and> toLowerCase (issuer b) = toLowerCase (the (user_address v)))"

text \<open>\<^verbatim>\<open>userStake && userStake > 0n\<close>\<close>

definition hasStake :: "'j page_view \<Rightarrow> bool" where
  "hasStake v = (case userStake v of None \<Rightarrow> False | Some s \<Rightarrow> s \<noteq> 0 \<and> s > 0)"

definition truthy_bool :: "bool option \<Rightarrow> bool" where
  "truthy_bool x = (x = Some True)"

text \<open>\<^verbatim>\<open>voteState?.claimId !== undefined ? Number(voteState.claimId) : null\<close>\<close>

definition votingClaimId :: "'j page_view \<Rightarrow> int option" where
  "votingClaimId v = map_option claimId (voteState v)"

text \<open>\<^verbatim>\<open>voteState?.deadline ? Number(voteState.deadline) * 1000 : null\<close>: a deadline of
  \<open>0n\<close> is falsy.\<close>

definition votingDeadline :: "'j page_view \<Rightarrow> int option" where
  "votingDeadline v =
     (case voteState v of
        None \<Rightarrow> None
      | Some vs \<Rightarrow> if deadline vs \<noteq> 0 then Some (deadline vs * 1000) else None)"

text \<open>\<^verbatim>\<open>votingDeadline ? Date.now() > votingDeadline : false\<close>\<close>

definition isVotingExpired :: "'j page_view \<Rightarrow> bool" where
  "isVotingExpired v =
     (case votingDeadline v of
        None \<Rightarrow> False
      | Some d \<Rightarrow> if d \<noteq> 0 then now v > d else False)"

definition totalVoted :: "'j page_view \<Rightarrow> int" where
  "totalVoted v = (case voteState v of None \<Rightarrow> 0 | Some vs \<Rightarrow> yes vs + no vs)"

definition allVotesCast :: "'j page_view \<Rightarrow> bool" where
  "allVotesCast v =
     (case bounty v of None \<Rightarrow> False | Some b \<Rightarrow> totalVoted v \<ge> totalStaked b)"

definition canResolveVote :: "'j page_view \<Rightarrow> bool" where
  "canResolveVote v = (isVotingExpired v \<or> allVotesCast v)"

text \<open>The bounty page's block \<^verbatim>\<open>{bounty.state === BountyState.VOTING && (...)}\<close>, reached
  once the page is not loading and has a bounty: \<open>None\<close> when the block is not
  rendered.\<close>

datatype voting_section = ResolveVoteButton | VotedBadge | VoteButtons | NoVotingAction

definition detail_voting_section :: "'j page_view \<Rightarrow> voting_section option" where
  "detail_voting_section v =
     (if isLoading v then None
      else
        (case bounty v of
           None \<Rightarrow> None
         | Some b \<Rightarrow>
             if state b = VOTING then
               Some (if canResolveVote v then ResolveVoteButton
                     else if hasStake v \<and> truthy_bool (hasVoted v) then VotedBadge
                     else if hasStake v \<and> \<not> truthy_bool (hasVoted v) then VoteButtons
                     else NoVotingAction)
             else None))"

text \<open>The claim page. \<^verbatim>\<open>claims.find((c) => c.id === claimId)\<close> finds nothing for a
  \<^verbatim>\<open>NaN\<close> claim id; the page renders its content only when it is not loading and has a
  bounty and the claim.\<close>

definition claim_found :: "'j page_view \<Rightarrow> bool" where
  "claim_found v =
     (case route_claimId v of
        None \<Rightarrow> False
      | Some n \<Rightarrow> List.find (\<lambda>c. int (claim_id c) = n) (claims v) \<noteq> None)"

text \<open>\<^verbatim>\<open>bounty?.state === BountyState.VOTING && votingClaimId === claimId\<close>; \<^verbatim>\<open>NaN\<close> is
  equal to nothing.\<close>

definition isVotingOnThis :: "'j page_view \<Rightarrow> bool" where
  "isVotingOnThis v =
     (case bounty v of
        None \<Rightarrow> False
      | Some b \<Rightarrow>
          state b = VOTING \<and> route_claimId v \<noteq> None \<and> votingClaimId v = route_claimId v)"

text \<open>\<^verbatim>\<open>{isVotingOnThis && voteState && (... {isVotingExpired && (<Button>Resolve Vote</Button>)} ...)}\<close>\<close>

definition claim_page_resolve_button :: "'j page_view \<Rightarrow> bool" where
  "claim_page_resolve_button v =
     (\<not> isLoading v \<and> bounty v \<noteq> None \<and> claim_found v \<and> isVotingOnThis v
      \<and> voteState v \<noteq> None \<and> isVotingExpired v)"

datatype claim_action =
  VoteYesNoButtons | SelectForVotingButton | AcceptAndPayOutButton | NoClaimAction

definition claim_page_action :: "'j page_view \<Rightarrow> claim_action option" where
  "claim_page_action v =
     (if isLoading v then None
      else
        (case bounty v of
           None \<Rightarrow> None
         | Some b \<Rightarrow>
             if \<not> claim_found v then None
             else Some (if isVotingOnThis v \<and> \<not> truthy_bool (hasVoted v) \<and> hasStake v
                        then VoteYesNoButtons
                        else if state b = OPEN \<and> isIssuer v then
                          (if joinable b then SelectForVotingButton else AcceptAndPayOutButton)
                        else NoClaimAction)))"

text \<open>\<^verbatim>\<open>canStartVote\<close> of the claim page (computed there, used by no button).\<close>

definition canStartVote :: "'j page_view \<Rightarrow> bool" where
  "canStartVote v =
     (case bounty v of
        None \<Rightarrow> False
      | Some b \<Rightarrow> state b = OPEN \<and> (isIssuer v \<or> hasStake v))"

section \<open>The write handlers\<close>

text \<open>The wallet as a handler sees it: the connected address, whether \<^verbatim>\<open>connectors[0]\<close>
  exists, and what \<^verbatim>\<open>connectAsync\<close> settles with (the accounts, or a rejection).\<close>

record wallet =
  connected_address :: "Address option"
  primaryConnector :: bool
  connectAsync :: "thrown + Address list"

datatype tx_arg = ArgUint int | ArgBool bool | ArgString string

record contract_write =
  account :: "Address option"
  target :: Address
  functionName :: string
  args :: "tx_arg list"
  tx_value :: "int option"

text \<open>A JavaScript string whose characters matter one by one: its UTF-16 code units.
  \<open>utf16\<close> gives the code units of an ASCII text.\<close>

type_synonym js_string = "nat list"

definition utf16 :: "string \<Rightarrow> js_string" where
  "utf16 s = map of_char s"

record BountyMetadata =
  meta_title :: js_string
  meta_description :: js_string

text \<open>What leaves the page: a wallet connection request, the metadata upload, a
  contract write handed to the wallet.\<close>

datatype effect =
    ConnectWallet
  | UploadMetadata BountyMetadata
  | WriteContract contract_write

text \<open>\<^verbatim>\<open>let targetAddress = address; if (!targetAddress) { if (!primaryConnector) throw new Error(msg); ... targetAddress = result.accounts[0]; }\<close>\<close>

definition resolve_target :: "wallet \<Rightarrow> string \<Rightarrow> (thrown + Address option) \<times> effect list" where
  "resolve_target w msg =
     (if truthy_string (connected_address w) then (Inr (connected_address w), [])
      else if \<not> primaryConnector w then (Inl (Error msg), [])
      else (case connectAsync w of
              Inl e \<Rightarrow> (Inl e, [ConnectWallet])
            | Inr accounts \<Rightarrow>
                (Inr (case accounts of [] \<Rightarrow> None | a # rest \<Rightarrow> Some a), [ConnectWallet])))"

text \<open>\<^verbatim>\<open>err instanceof Error ? err.message : fallback\<close>\<close>

definition error_message :: "thrown \<Rightarrow> string \<Rightarrow> string" where
  "error_message e fallback = (case e of Error m \<Rightarrow> m | NotAnError \<Rightarrow> fallback)"




text \<open>Sample page states. A bounty in VOTING on claim 0 with total stake 10, where
  yes + no = 10 and the deadline (in seconds) lies ahead of \<^verbatim>\<open>now\<close> (in milliseconds).\<close>

definition sample_bounty_in :: "BountyState \<Rightarrow> unit Bounty" where
  "sample_bounty_in st =
     \<lparr> address = ''0xb1'', issuer = ''0xA1'', metadataURI = [], state = st, joinable = True,
       totalStaked = 10, claimsCount = 1, metadata = None, currentVote = None \<rparr>"

definition all_voted_view :: "unit page_view" where
  "all_voted_view =
     \<lparr> isLoading = False,
       isSubmitting = False,
       bounty = Some (sample_bounty_in VOTING),
       claims = [sample_claim 0 []],
       voteState = Some \<lparr> claimId = 0, yes = 6, no = 4, deadline = 2000000000, votingRound = 1 \<rparr>,
       userStake = Some 4,
       hasVoted = Some True,
       user_address = Some ''0xc1'',
       now = 1700000000000,
       route_claimId = Some 0 \<rparr>"

text \<open>An OPEN joinable bounty seen by an address that is neither the issuer nor a
  staker, the same bounty seen by its issuer (the address differs in letter case only),
  and a browser with no wallet connector.\<close>

definition outsider_view :: "unit page_view" where
  "outsider_view =
     \<lparr> isLoading = False,
       isSubmitting = False,
       bounty = Some (sample_bounty_in OPEN),
       claims = [sample_claim 0 []],
       voteState = None,
       userStake = Some 0,
       hasVoted = None,
       user_address = Some ''0xd4'',
       now = 1700000000000,
       route_claimId = Some 0 \<rparr>"

definition issuer_view :: "unit page_view" where
  "issuer_view = outsider_view \<lparr> user_address := Some ''0xa1'' \<rparr>"

definition outsider_wallet :: wallet where
  "outsider_wallet =
     \<lparr> connected_address = Some ''0xd4'', primaryConnector = True, connectAsync = Inr [] \<rparr>"


text \<open>A chain on which the user has voted in round 1 and not in round 2, and what the
  pages read for a staker of the sample bounty while the current vote is in round \<open>r\<close>
  with \<open>y\<close> yes-weight and the deadline ahead.\<close>

definition voted_in_round_1 :: "Address \<Rightarrow> Address \<Rightarrow> int \<Rightarrow> bool option" where
  "voted_in_round_1 b u r = Some (r = 1)"

definition round_sources :: "int \<Rightarrow> int \<Rightarrow> int option \<Rightarrow> unit page_sources" where
  "round_sources r y stake =
     \<lparr> DEMO_MODE = False,
       parseInt16 = (\<lambda>s. None),
       hasVoted_read = voted_in_round_1,
       currentVote_read = Some (0, y, 0, 2000000000, r),
       loading = False,
       submitting = False,
       bounty_result = Some (sample_bounty_in VOTING),
       claims_result = [sample_claim 0 []],
       stake_result = stake,
       account_address = Some ''0xc1'',
       clock = 1700000000000,
       bountyAddress_param = ''0xb1'',
       claimId_param = Some 0 \<rparr>"

text \<open>The demo fixture: bounty 2 seen by an address that is among the fixture's
  voters.\<close>

definition demo_sources :: "unit page_sources" where
  "demo_sources =
     \<lparr> DEMO_MODE = True,
       parseInt16 = (\<lambda>s. if s = ''0002'' then Some 2 else if s = ''000a'' then Some 10 else None),
       hasVoted_read = (\<lambda>b u r. None),
       currentVote_read = None,
       loading = False,
       submitting = False,
       bounty_result = Some (sample_bounty_in VOTING),
       claims_result = [sample_claim 0 []],
       stake_result = Some 4,
       account_address = Some ''0x3456789012abcdef3456789012abcdef34567890'',
       clock = 1700000000000,
       bountyAddress_param = mockBountyAddr_2,
       claimId_param = Some 0 \<rparr>"

section \<open>Creating and joining a bounty: \<^verbatim>\<open>handleSubmit\<close>, \<^verbatim>\<open>handleJoin\<close> (src/app/create/page.tsx)\<close>

text \<open>
  \<^verbatim>\<open>String.prototype.trim\<close> removes the ECMAScript white space and line terminator code
  points from both ends: TAB, LF, VT, FF, CR, SPACE, U+00A0, U+1680, U+2000 to U+200A,
  U+2028, U+2029, U+202F, U+205F, U+3000 and U+FEFF.
\<close>

definition isWhiteSpace :: "nat \<Rightarrow> bool" where
  "isWhiteSpace n =
     ((9 \<le> n \<and> n \<le> 13) \<or> n = 32 \<or> n = 160 \<or> n = 5760 \<or> (8192 \<le> n \<and> n \<le> 8202)
      \<or> n = 8232 \<or> n = 8233 \<or> n = 8239 \<or> n = 8287 \<or> n = 12288 \<or> n = 65279)"

definition trim :: "js_string \<Rightarrow> js_string" where
  "trim s = rev (dropWhile isWhiteSpace (rev (dropWhile isWhiteSpace s)))"

text \<open>A JavaScript number: \<^verbatim>\<open>NaN\<close>, an infinity (\<open>True\<close> for the negative one) or the
  finite double \<open>m * 2 ^ e\<close>; and the comparison \<^verbatim>\<open>x <= 0\<close>, false for \<^verbatim>\<open>NaN\<close>.\<close>

datatype js_number = NaN | Infinity bool | Finite int int

definition js_le_zero :: "js_number \<Rightarrow> bool" where
  "js_le_zero x =
     (case x of NaN \<Rightarrow> False | Infinity negative \<Rightarrow> negative | Finite m e \<Rightarrow> m \<le> 0)"

text \<open>The response of \<^verbatim>\<open>POST /api/ipfs/upload\<close> as \<^verbatim>\<open>uploadToIPFS\<close> reads it: \<^verbatim>\<open>ok\<close>,
  \<^verbatim>\<open>text()\<close> and the \<^verbatim>\<open>cid\<close> field of \<^verbatim>\<open>json()\<close> (absent when the body has none).\<close>

record upload_response =
  upload_ok :: bool
  upload_text :: "thrown + string"
  upload_cid :: "thrown + string option"

text \<open>The library and network functions the two handlers call: the built-in
  \<^verbatim>\<open>parseFloat\<close>, viem's \<^verbatim>\<open>parseEther\<close> (throws on a malformed decimal) and the upload
  request.\<close>

record submit_env =
  parseFloat :: "js_string \<Rightarrow> js_number"
  parseEther :: "js_string \<Rightarrow> thrown + int"
  post_upload :: "BountyMetadata \<Rightarrow> thrown + upload_response"

text \<open>\<^verbatim>\<open>uploadToIPFS\<close> (src/lib/ipfs.ts)\<close>

definition uploadToIPFS :: "submit_env \<Rightarrow> BountyMetadata \<Rightarrow> thrown + string option" where
  "uploadToIPFS env md =
     (case post_upload env md of
        Inl e \<Rightarrow> Inl e
      | Inr r \<Rightarrow>
          if \<not> upload_ok r then
            (case upload_text r of
               Inl e \<Rightarrow> Inl e
             | Inr t \<Rightarrow> Inl (Error (''Failed to upload to IPFS: '' @ t)))
          else upload_cid r)"

text \<open>\<^verbatim>\<open>toIPFSUri(cid)\<close> where \<^verbatim>\<open>cid\<close> may be \<^verbatim>\<open>undefined\<close>: \<^verbatim>\<open>cid.startsWith\<close> then throws
  a \<^verbatim>\<open>TypeError\<close>.\<close>

definition toIPFSUri_of :: "string option \<Rightarrow> thrown + string" where
  "toIPFSUri_of c =
     (case c of
        None \<Rightarrow> Inl (Error ''Cannot read properties of undefined (reading startsWith)'')
      | Some s \<Rightarrow> Inr (toIPFSUri s))"

definition factory :: Address where
  "factory = ''0x2B31F6E90D0E0e1f3814a3B9d76a9f4cE3b2E6c0''"

text \<open>The state of the create form (\<^verbatim>\<open>useState\<close>).\<close>

record create_form =
  title :: js_string
  description :: js_string
  amount :: js_string
  joinable_choice :: bool
  isUploading :: bool
  error :: "string option"

text \<open>The \<^verbatim>\<open>catch\<close> of \<^verbatim>\<open>handleSubmit\<close>.\<close>

definition submit_failed :: "create_form \<Rightarrow> thrown \<Rightarrow> create_form" where
  "submit_failed f e =
     f \<lparr> isUploading := False, error := Some (error_message e ''Failed to create bounty'') \<rparr>"

text \<open>\<^verbatim>\<open>handleSubmit\<close>: the form state it leaves and the effects, in order.\<close>

definition handleSubmit :: "submit_env \<Rightarrow> wallet \<Rightarrow> create_form \<Rightarrow> create_form \<times> effect list" where
  "handleSubmit env w f =
     (if trim (title f) = [] \<or> trim (description f) = [] then
        (f \<lparr> error := Some ''Title and description are required'' \<rparr>, [])
      else if amount f = [] \<or> js_le_zero (parseFloat env (amount f)) then
        (f \<lparr> error := Some ''Please enter a valid amount'' \<rparr>, [])
      else
        (case resolve_target w ''Wallet connector not available'' of
           (Inl e, fx) \<Rightarrow> (submit_failed f e, fx)
         | (Inr targetAddress, fx) \<Rightarrow>
             if \<not> truthy_string targetAddress then
               (submit_failed f (Error ''Unable to determine wallet address''), fx)
             else
               (let md = \<lparr> meta_title = trim (title f), meta_description = trim (description f) \<rparr>
                in case uploadToIPFS env md of
                     Inl e \<Rightarrow> (submit_failed f e, fx @ [UploadMetadata md])
                   | Inr c \<Rightarrow>
                       (case toIPFSUri_of c of
                          Inl e \<Rightarrow> (submit_failed f e, fx @ [UploadMetadata md])
                        | Inr uri \<Rightarrow>
                            (case parseEther env (amount f) of
                               Inl e \<Rightarrow> (submit_failed f e, fx @ [UploadMetadata md])
                             | Inr wei \<Rightarrow>
                                 (f \<lparr> isUploading := False, error := None \<rparr>,
                                  fx @ [UploadMetadata md,
                                        WriteContract
                                          \<lparr> account = targetAddress, target = factory,
                                            functionName = ''createBounty'',
                                            args = [ArgString uri, ArgBool (joinable_choice f)],
                                            tx_value = Some wei \<rparr>]))))))"

text \<open>The form state of the bounty page and its \<^verbatim>\<open>handleJoin\<close>.\<close>

record bounty_page_state =
  showClaimForm :: bool
  showJoinForm :: bool
  claimName :: js_string
  joinAmount :: js_string
  page_error :: "string option"

definition handleJoin ::
  "submit_env \<Rightarrow> wallet \<Rightarrow> Address \<Rightarrow> bounty_page_state \<Rightarrow> bounty_page_state \<times> effect list" where
  "handleJoin env w bountyAddress p =
     (if joinAmount p = [] \<or> js_le_zero (parseFloat env (joinAmount p)) then
        (p \<lparr> page_error := Some ''Please enter a valid amount'' \<rparr>, [])
      else
        (case resolve_target w ''Wallet not available'' of
           (Inl e, fx) \<Rightarrow> (p \<lparr> page_error := Some (error_message e ''Failed to join'') \<rparr>, fx)
         | (Inr targetAddress, fx) \<Rightarrow>
             (case parseEther env (joinAmount p) of
                Inl e \<Rightarrow> (p \<lparr> page_error := Some (error_message e ''Failed to join'') \<rparr>, fx)
              | Inr wei \<Rightarrow>
                  (p \<lparr> page_error := None \<rparr>,
                   fx @ [WriteContract \<lparr> account = targetAddress, target = bountyAddress,
                                         functionName = ''stake'', args = [],
                                         tx_value = Some wei \<rparr>]))))"

text \<open>A sample runtime: \<^verbatim>\<open>parseFloat\<close> and \<^verbatim>\<open>parseEther\<close> on the few strings used below,
  and an upload that succeeds.\<close>

definition sample_parseFloat :: "js_string \<Rightarrow> js_number" where
  "sample_parseFloat s =
     (if s = utf16 ''0.5'' then Finite 1 (- 1)
      else if s = utf16 ''0'' then Finite 0 0
      else if s = utf16 ''-1'' then Finite (- 1) 0
      else NaN)"

definition sample_submit_env :: submit_env where
  "sample_submit_env =
     \<lparr> parseFloat = sample_parseFloat,
       parseEther = (\<lambda>s. if s = utf16 ''0.5'' then Inr 500000000000000000
                          else Inl (Error ''Invalid decimal number'')),
       post_upload = (\<lambda>md. Inr \<lparr> upload_ok = True, upload_text = Inr [],
                                  upload_cid = Inr (Some ''QmNew'') \<rparr>) \<rparr>"

definition sample_form :: "js_string \<Rightarrow> js_string \<Rightarrow> js_string \<Rightarrow> create_form" where
  "sample_form t d a =
     \<lparr> title = t, description = d, amount = a, joinable_choice = True, isUploading = False,
       error = None \<rparr>"

definition sample_join :: "js_string \<Rightarrow> bounty_page_state" where
  "sample_join a =
     \<lparr> showClaimForm = False, showJoinForm = True, claimName = [], joinAmount = a,
       page_error = None \<rparr>"

section \<open>Properties of the many-bounties projection\<close>

lemma fold_push_bounty:
  "fold (push_bounty addresses d) is acc = acc @ List.map_filter (parseBounty addresses d) is"
proof (induction "is" arbitrary: acc)
  case Nil
  show ?case by simp
next
  case (Cons i "is")
  have step: "push_bounty addresses d i acc =
                acc @ (case parseBounty addresses d i of None \<Rightarrow> [] | Some b \<Rightarrow> [b])"
    by (simp add: push_bounty_def split: option.split)
  have "fold (push_bounty addresses d) (i # is) acc =
          fold (push_bounty addresses d) is (push_bounty addresses d i acc)"
    by simp
  also have "\<dots> = push_bounty addresses d i acc @ List.map_filter (parseBounty addresses d) is"
    by (rule Cons.IH)
  also have "\<dots> = acc @ List.map_filter (parseBounty addresses d) (i # is)"
    by (simp add: step split: option.split)
  finally show ?case .
qed

lemma parseBounty_issuer_failed:
  "result_at d (i * 6) = None \<Longrightarrow> parseBounty addresses d i = None"
  by (simp add: parseBounty_def Let_def)

lemma parseBounty_defaults:
  assumes "result_at d (i * 6) = Some (AbiAddress iss)"
    and "\<forall>k \<in> {1, 2, 3, 4, 5}. result_at d (i * 6 + k) = None"
  shows "parseBounty addresses d i =
           Some \<lparr> address = addresses ! i, issuer = iss, metadataURI = [], state = OPEN,
                  joinable = False, totalStaked = 0, claimsCount = 0 \<rparr>"
  using assms by (simp add: parseBounty_def Let_def nullish_def OPEN_def)

text \<open>
  C10. In the many-bounties projection the result list is, in order, exactly the bounties
  of the indices whose issuer read gave a value: a bounty whose issuer read failed is
  left out, with no error. A bounty whose issuer read succeeded and whose other five
  reads failed is included with metadataURI = "", state = OPEN (the number 0),
  joinable = false, totalStaked = 0 and claimsCount = 0; whatever the other reads give,
  a failed state read is reported as OPEN. The single-bounty hook \<^verbatim>\<open>useBounty\<close> uses
  the same defaults.
\<close>

theorem C10_read_failures_absorbed_by_defaults:
  "useBountiesData addresses (Some d) =
     List.map_filter (parseBounty addresses d) [0..<length addresses]
   \<and> (result_at d (i * 6) = None \<longrightarrow> parseBounty addresses d i = None)
   \<and> (result_at d (n * 6) = Some (AbiAddress iss)
        \<and> (\<forall>k \<in> {1, 2, 3, 4, 5}. result_at d (n * 6 + k) = None) \<longrightarrow>
      parseBounty addresses d n =
        Some \<lparr> address = addresses ! n, issuer = iss, metadataURI = [], state = OPEN,
               joinable = False, totalStaked = 0, claimsCount = 0 \<rparr>)
   \<and> (result_at d (k * 6) = Some (AbiAddress iss) \<and> result_at d (k * 6 + 2) = None \<longrightarrow>
      map_option state (parseBounty addresses d k) = Some OPEN)
   \<and> (a \<noteq> [] \<longrightarrow>
      useBounty_live (Some a) (Some iss) None None None None None None (None :: 'j option) =
        Some \<lparr> address = a, issuer = iss, metadataURI = [], state = OPEN,
               joinable = False, totalStaked = 0, claimsCount = 0,
               metadata = None, currentVote = None \<rparr>)
   \<and> useBounty_live (Some a) None m s j t c v (md :: 'j option) = None"
proof (intro conjI impI)
  show "useBountiesData addresses (Some d) =
          List.map_filter (parseBounty addresses d) [0..<length addresses]"
    by (simp add: useBountiesData_def fold_push_bounty)
next
  assume "result_at d (i * 6) = None"
  then show "parseBounty addresses d i = None" by (rule parseBounty_issuer_failed)
next
  assume "result_at d (n * 6) = Some (AbiAddress iss)
            \<and> (\<forall>k \<in> {1, 2, 3, 4, 5}. result_at d (n * 6 + k) = None)"
  then show "parseBounty addresses d n =
        Some \<lparr> address = addresses ! n, issuer = iss, metadataURI = [], state = OPEN,
               joinable = False, totalStaked = 0, claimsCount = 0 \<rparr>"
    using parseBounty_defaults by blast
next
  assume "result_at d (k * 6) = Some (AbiAddress iss) \<and> result_at d (k * 6 + 2) = None"
  then show "map_option state (parseBounty addresses d k) = Some OPEN"
    by (simp add: parseBounty_def Let_def nullish_def OPEN_def)
next
  assume "a \<noteq> []"
  then show "useBounty_live (Some a) (Some iss) None None None None None None (None :: 'j option) =
        Some \<lparr> address = a, issuer = iss, metadataURI = [], state = OPEN,
               joinable = False, totalStaked = 0, claimsCount = 0,
               metadata = None, currentVote = None \<rparr>"
    by (simp add: useBounty_live_def truthy_string_def nullish_def OPEN_def)
next
  show "useBounty_live (Some a) None m s j t c v md = None"
    by (simp add: useBounty_live_def)
qed

theorem C10_defaults_witness:
  "result_at sample_reads (1 * 6) = None
   \<and> parseBounty sample_addresses sample_reads 1 = None
   \<and> result_at sample_reads (2 * 6) = Some (AbiAddress ''0xa3'')
   \<and> result_at sample_reads (2 * 6 + 1) = None
   \<and> result_at sample_reads (2 * 6 + 2) = None
   \<and> result_at sample_reads (2 * 6 + 3) = None
   \<and> result_at sample_reads (2 * 6 + 4) = None
   \<and> result_at sample_reads (2 * 6 + 5) = None
   \<and> useBountiesData sample_addresses (Some sample_reads) =
       [\<lparr> address = ''0xb1'', issuer = ''0xa1'', metadataURI = ''ipfs://Qm1'', state = VOTING,
          joinable = True, totalStaked = 5, claimsCount = 2 \<rparr>,
        \<lparr> address = ''0xb3'', issuer = ''0xa3'', metadataURI = [], state = OPEN,
          joinable = False, totalStaked = 0, claimsCount = 0 \<rparr>]
   \<and> ''0xb3'' \<noteq> []
   \<and> useBounty_live (Some ''0xb3'') (Some ''0xa3'') None None None None None None
         (None :: unit option) =
       Some \<lparr> address = ''0xb3'', issuer = ''0xa3'', metadataURI = [], state = OPEN,
              joinable = False, totalStaked = 0, claimsCount = 0,
              metadata = None, currentVote = None \<rparr>"
  using C10_read_failures_absorbed_by_defaults
    [of sample_addresses sample_reads 1 2 "''0xa3''" 2 "''0xb3''"
        None None None None None None "None :: unit option"]
  by (simp add: result_at_def sample_reads_def sample_addresses_def parseBounty_def
      nullish_def OPEN_def VOTING_def upt_conv_Cons)

section \<open>Properties of metadata resolution and of the projections that use it\<close>

lemma fetch_json_log: "snd (fetch_json env u log) = log @ [u]"
  by (simp add: fetch_json_def split: sum.split)

lemma fetch_json_indep: "fst (fetch_json env u log) = fst (fetch_json env u [])"
  by (simp add: fetch_json_def split: sum.split)

lemma catch_null_Inr: "\<exists>v. catch_null r = Inr v"
  by (cases r) (simp_all add: catch_null_def)

lemma api_lookup_never_throws: "\<exists>v. fst (api_lookup env cid log) = Inr v"
  by (simp add: api_lookup_def catch_null_Inr split: sum.split prod.split)

lemma fetchFromIPFS_never_throws: "\<exists>v. fst (fetchFromIPFS env uri log) = Inr v"
  by (simp add: fetchFromIPFS_def api_lookup_never_throws catch_null_Inr
      split: option.split prod.split)

lemma api_lookup_log:
  "api_lookup env cid log = (fst (api_lookup env cid []), log @ snd (api_lookup env cid []))"
  by (simp add: api_lookup_def fetch_json_def split: sum.split prod.split)

lemma fetchFromIPFS_log:
  "fetchFromIPFS env uri log = (Inr (resolved env uri), log @ requests env uri)"
proof -
  obtain v where v: "fst (fetchFromIPFS env uri []) = Inr v"
    using fetchFromIPFS_never_throws by blast
  have "fetchFromIPFS env uri log =
          (fst (fetchFromIPFS env uri []), log @ snd (fetchFromIPFS env uri []))"
    unfolding fetchFromIPFS_def
    using api_lookup_log [of env _ log]
    by (simp add: fetch_json_def split: option.split sum.split prod.split)
  then show ?thesis by (simp add: resolved_def requests_def v)
qed

lemma requests_empty: "requests env [] = []"
  by (simp add: requests_def fetchFromIPFS_def)

lemma resolved_empty: "resolved env [] = None"
  by (simp add: resolved_def fetchFromIPFS_def)

lemma metadata_step_eq:
  "metadata_step env b (err, m, log) =
     (err, (if metadataURI b \<noteq> [] then m(metadataURI b \<mapsto> resolved env (metadataURI b)) else m),
      log @ requests env (metadataURI b))"
  by (simp add: metadata_step_def fetchFromIPFS_log requests_empty)

lemma fold_metadata_step:
  "fold (metadata_step env) bs (err, m, log) =
     (err, m ++ uri_map env (metadataURI ` set bs),
      log @ concat (map (\<lambda>b. requests env (metadataURI b)) bs))"
proof (induction bs arbitrary: m log)
  case Nil
  have "m ++ uri_map env {} = m" by (rule ext) (simp add: uri_map_def map_add_def)
  then show ?case by simp
next
  case (Cons b bs)
  have "(if metadataURI b \<noteq> [] then m(metadataURI b \<mapsto> resolved env (metadataURI b)) else m)
          ++ uri_map env (metadataURI ` set bs)
        = m ++ uri_map env (metadataURI ` set (b # bs))"
    by (rule ext) (auto simp: uri_map_def map_add_def split: option.split)
  then show ?case by (simp add: metadata_step_eq Cons.IH)
qed

lemma proof_step_eq:
  "proof_step env c (m, log) =
     ((if proofURI c \<noteq> [] then m(proofURI c \<mapsto> resolved env (proofURI c)) else m),
      log @ requests env (proofURI c))"
  by (simp add: proof_step_def fetchFromIPFS_log requests_empty)

lemma fold_proof_step:
  "fold (proof_step env) cs (m, log) =
     (m ++ uri_map env (proofURI ` set cs),
      log @ concat (map (\<lambda>c. requests env (proofURI c)) cs))"
proof (induction cs arbitrary: m log)
  case Nil
  have "m ++ uri_map env {} = m" by (rule ext) (simp add: uri_map_def map_add_def)
  then show ?case by simp
next
  case (Cons c cs)
  have "(if proofURI c \<noteq> [] then m(proofURI c \<mapsto> resolved env (proofURI c)) else m)
          ++ uri_map env (proofURI ` set cs)
        = m ++ uri_map env (proofURI ` set (c # cs))"
    by (rule ext) (auto simp: uri_map_def map_add_def split: option.split)
  then show ?case by (simp add: proof_step_eq Cons.IH)
qed

lemma metadata_queryFn_eq:
  "metadata_queryFn env bs =
     (Inr (uri_map env (metadataURI ` set bs)), concat (map (\<lambda>b. requests env (metadataURI b)) bs))"
  by (simp add: metadata_queryFn_def fold_metadata_step)

lemma proof_queryFn_eq:
  "proof_queryFn env cs =
     (uri_map env (proofURI ` set cs), concat (map (\<lambda>c. requests env (proofURI c)) cs))"
  by (simp add: proof_queryFn_def fold_proof_step)

lemma get_uri_map:
  "u \<in> U \<Longrightarrow> map_get_or_null (Some (uri_map env U)) u = resolved env u"
  by (simp add: map_get_or_null_def uri_map_def resolved_empty)

lemma useBounties_live_eq:
  "useBounties_live env addresses reads =
     map (\<lambda>b. with_metadata b (resolved env (metadataURI b))) (useBountiesData addresses reads)"
proof (cases "useBountiesData addresses reads = []")
  case True
  then show ?thesis by (simp add: useBounties_live_def)
next
  case False
  then show ?thesis
    by (simp add: useBounties_live_def Let_def metadataMap_of_def metadata_queryFn_eq get_uri_map)
qed

lemma useClaims_live_eq:
  "useClaims_live env claimsData =
     map (\<lambda>c. with_proof c (resolved env (proofURI c))) (parse_claims claimsData)"
proof (cases "parse_claims claimsData = []")
  case True
  then show ?thesis by (simp add: useClaims_live_def)
next
  case False
  then show ?thesis
    by (simp add: useClaims_live_def Let_def proofMap_of_def proof_queryFn_eq get_uri_map)
qed

lemma truncate_with_metadata: "BountyData.truncate (with_metadata b md) = b"
  by (simp add: with_metadata_def BountyData.defs)

lemma metadata_with_metadata: "metadata (with_metadata b md) = md"
  by (simp add: with_metadata_def BountyData.defs BountyWithMetadata.defs)

lemma truncate_with_proof: "ClaimData.truncate (with_proof c p) = c"
  by (simp add: with_proof_def ClaimData.defs)

lemma proof_with_proof: "proof_doc (with_proof c p) = p"
  by (simp add: with_proof_def ClaimData.defs ClaimWithProof.defs)

lemma requests_at_most_one:
  "requests env uri = [] \<or> (\<exists>u. requests env uri = [u])"
  by (simp add: requests_def fetchFromIPFS_def api_lookup_def fetch_json_def
      split: option.split sum.split prod.split)

lemma failing_request_resolves_null:
  assumes "\<forall>u \<in> set (requests env uri). request_fails env u"
  shows "resolved env uri = None"
  using assms
  by (auto simp add: requests_def resolved_def request_fails_def fetchFromIPFS_def api_lookup_def fetch_json_def catch_null_def
      split: option.splits sum.splits prod.splits if_splits)

text \<open>
  C4. \<^verbatim>\<open>fetchFromIPFS\<close> never rejects: for every reference it settles with a value. On
  the empty reference it returns null without a request; when the request it issues
  fails (the fetch rejects, the response is not OK, or the body does not parse) it
  returns null. The projections keep every bounty (every parsed claim) of the batch with
  its fields intact, and each one's metadata (proof) is the resolution of its own
  reference, null when that resolution fails, whatever happens to the other references.
\<close>

theorem C4_metadata_failure_is_null:
  "(\<exists>v. fst (fetchFromIPFS env uri log) = Inr v)
   \<and> fetchFromIPFS env [] log = (Inr None, log)
   \<and> ((\<forall>u \<in> set (requests env uri). request_fails env u) \<longrightarrow>
        fst (fetchFromIPFS env uri log) = Inr None)
   \<and> map BountyData.truncate (useBounties_live env addresses reads) =
        useBountiesData addresses reads
   \<and> map metadata (useBounties_live env addresses reads) =
        map (\<lambda>b. resolved env (metadataURI b)) (useBountiesData addresses reads)
   \<and> map ClaimData.truncate (useClaims_live env claimsData) = parse_claims claimsData
   \<and> map proof_doc (useClaims_live env claimsData) =
        map (\<lambda>c. resolved env (proofURI c)) (parse_claims claimsData)"
proof (intro conjI impI)
  show "\<exists>v. fst (fetchFromIPFS env uri log) = Inr v"
    by (rule fetchFromIPFS_never_throws)
  show "fetchFromIPFS env [] log = (Inr None, log)"
    by (simp add: fetchFromIPFS_def)
  show "fst (fetchFromIPFS env uri log) = Inr None"
    if "\<forall>u \<in> set (requests env uri). request_fails env u"
    using failing_request_resolves_null [OF that] by (simp add: fetchFromIPFS_log)
  show "map BountyData.truncate (useBounties_live env addresses reads) =
        useBountiesData addresses reads"
    by (simp add: useBounties_live_eq comp_def truncate_with_metadata)
  show "map metadata (useBounties_live env addresses reads) =
        map (\<lambda>b. resolved env (metadataURI b)) (useBountiesData addresses reads)"
    by (simp add: useBounties_live_eq comp_def metadata_with_metadata)
  show "map ClaimData.truncate (useClaims_live env claimsData) = parse_claims claimsData"
    by (simp add: useClaims_live_eq comp_def truncate_with_proof)
  show "map proof_doc (useClaims_live env claimsData) =
        map (\<lambda>c. resolved env (proofURI c)) (parse_claims claimsData)"
    by (simp add: useClaims_live_eq comp_def proof_with_proof)
qed

lemmas eval_ipfs = resolved_def requests_def fetchFromIPFS_def extract_cid_def startsWith_def
  api_lookup_def fetch_json_def catch_null_def sample_env_def sample_fetch_def request_fails_def

theorem C4_witness:
  "requests sample_env ''ipfs://QmBad'' = [''/api/ipfs/QmBad'']
   \<and> request_fails sample_env ''/api/ipfs/QmBad''
   \<and> fst (fetchFromIPFS sample_env ''ipfs://QmBad'' []) = Inr None
   \<and> map metadata (useBounties_live sample_env sample_addresses (Some sample_reads_meta)) =
        [None, Some 7, None]
   \<and> map address (useBounties_live sample_env sample_addresses (Some sample_reads_meta)) =
        [''0xb1'', ''0xb2'', ''0xb3'']
   \<and> map proof_doc (useClaims_live sample_env (Some sample_claims)) = [Some 7, None]"
proof -
  have r: "requests sample_env ''ipfs://QmBad'' = [''/api/ipfs/QmBad'']"
    by (simp add: eval_ipfs)
  have f: "request_fails sample_env ''/api/ipfs/QmBad''"
    by (simp add: eval_ipfs)
  have b: "useBountiesData sample_addresses (Some sample_reads_meta) =
     [\<lparr> address = ''0xb1'', issuer = ''0xa1'', metadataURI = ''ipfs://QmGone'', state = 0,
         joinable = True, totalStaked = 5, claimsCount = 0 \<rparr>,
      \<lparr> address = ''0xb2'', issuer = ''0xa2'', metadataURI = ''ipfs://QmGood'', state = 0,
         joinable = True, totalStaked = 7, claimsCount = 1 \<rparr>,
      \<lparr> address = ''0xb3'', issuer = ''0xa3'', metadataURI = ''ipfs://QmBad'', state = 0,
         joinable = False, totalStaked = 1, claimsCount = 0 \<rparr>]"
    by (simp add: useBountiesData_def push_bounty_def parseBounty_def result_at_def nullish_def
        sample_addresses_def sample_reads_meta_def upt_conv_Cons)
  have c: "parse_claims (Some sample_claims) =
     [\<lparr> claim_id = 0, claimant = ''0xc1'', name = ''first'', proofURI = ''QmGood'' \<rparr>,
      \<lparr> claim_id = 2, claimant = ''0xc3'', name = ''third'', proofURI = ''ipfs://QmBad'' \<rparr>]"
    by (simp add: parse_claims_def push_claim_def sample_claims_def upt_conv_Cons)
  have t: "map address (map BountyData.truncate (useBounties_live sample_env sample_addresses (Some sample_reads_meta)))
     = map address (useBounties_live sample_env sample_addresses (Some sample_reads_meta))"
    by (simp add: comp_def BountyData.defs)
  from C4_metadata_failure_is_null
    [of sample_env "''ipfs://QmBad''" "[]" sample_addresses "Some sample_reads_meta" "Some sample_claims"]
  show ?thesis
    using r f b c t by (simp add: eval_ipfs)
qed


text \<open>
  C6, as stated, fails: with two bounties (two claims) that carry the same reference the
  lookup for it is requested twice.
\<close>

theorem C6_shared_uri_fetched_twice:
  "count_list (snd (metadata_queryFn sample_env shared_uri_bounties)) ''/api/ipfs/QmGood'' = 2
   \<and> count_list (snd (proof_queryFn sample_env shared_uri_claims)) ''/api/ipfs/QmGood'' = 2"
  by (simp add: metadata_queryFn_def metadata_step_def proof_queryFn_def proof_step_def
      shared_uri_bounties_def shared_uri_claims_def sample_bounty_def sample_claim_def
      fetchFromIPFS_def extract_cid_def startsWith_def api_lookup_def fetch_json_def
      catch_null_def sample_env_def sample_fetch_def)

lemma dom_uri_map: "dom (uri_map env U) = {u \<in> U. u \<noteq> []}"
  by (auto simp: uri_map_def dom_def)

lemma one_request_per_reference:
  assumes "\<forall>c. \<exists>s. encodeURIComponent env c = Inr s" and "uri \<noteq> []"
  shows "length (requests env uri) = 1"
proof (cases "extract_cid uri")
  case None
  with assms(2) show ?thesis
    by (simp add: requests_def fetchFromIPFS_def fetch_json_log split: prod.split)
       (metis fetch_json_log length_append_singleton snd_conv list.size(3) One_nat_def)
next
  case (Some cid)
  from assms(1) obtain s where "encodeURIComponent env cid = Inr s" by blast
  with Some assms(2) show ?thesis
    by (simp add: requests_def fetchFromIPFS_def api_lookup_def fetch_json_def
        split: prod.split sum.split)
qed

lemma length_concat_requests:
  assumes "\<forall>c. \<exists>s. encodeURIComponent env c = Inr s"
  shows "length (concat (map (\<lambda>x. requests env (f x)) xs)) = length (filter (\<lambda>x. f x \<noteq> []) xs)"
  by (induction xs) (simp_all add: requests_empty one_request_per_reference [OF assms])

text \<open>
  C6, amended. Resolution fans out per item, not per unique reference: the requests of a
  batch are, in list order, the requests of one \<^verbatim>\<open>fetchFromIPFS\<close> call for each item,
  so a reference shared by k items is looked up k times. Only the resulting map is keyed
  by reference: it has one entry per distinct non-empty reference. When
  \<^verbatim>\<open>encodeURIComponent\<close> does not throw, the number of requests is the number of items
  with a non-empty reference.
\<close>

theorem C6_resolution_fans_out_per_item:
  "snd (metadata_queryFn env bs) = concat (map (\<lambda>b. requests env (metadataURI b)) bs)
   \<and> snd (proof_queryFn env cs) = concat (map (\<lambda>c. requests env (proofURI c)) cs)
   \<and> fst (metadata_queryFn env bs) = Inr (uri_map env (metadataURI ` set bs))
   \<and> fst (proof_queryFn env cs) = uri_map env (proofURI ` set cs)
   \<and> dom (uri_map env U) = {u \<in> U. u \<noteq> []}
   \<and> ((\<forall>c. \<exists>s. encodeURIComponent env c = Inr s) \<longrightarrow>
        length (snd (metadata_queryFn env bs)) = length (filter (\<lambda>b. metadataURI b \<noteq> []) bs)
        \<and> length (snd (proof_queryFn env cs)) = length (filter (\<lambda>c. proofURI c \<noteq> []) cs))"
  by (simp add: metadata_queryFn_eq proof_queryFn_eq dom_uri_map length_concat_requests)

theorem C6_witness:
  "(\<forall>c. \<exists>s. encodeURIComponent sample_env c = Inr s)
   \<and> snd (metadata_queryFn sample_env shared_uri_bounties) =
       [''/api/ipfs/QmGood'', ''/api/ipfs/QmGood'']
   \<and> length (filter (\<lambda>b. metadataURI b \<noteq> []) shared_uri_bounties) = 2
   \<and> snd (proof_queryFn sample_env shared_uri_claims) =
       [''/api/ipfs/QmGood'', ''/api/ipfs/QmGood'']
   \<and> dom (uri_map sample_env (metadataURI ` set shared_uri_bounties)) = {''ipfs://QmGood''}"
proof -
  have e: "\<forall>c. \<exists>s. encodeURIComponent sample_env c = Inr s"
    by (simp add: sample_env_def)
  from C6_resolution_fans_out_per_item
    [of sample_env shared_uri_bounties shared_uri_claims "metadataURI ` set shared_uri_bounties"]
  show ?thesis using e
    by (auto simp add: shared_uri_bounties_def shared_uri_claims_def sample_bounty_def
        sample_claim_def eval_ipfs)
qed

section \<open>Properties of reference normalisation\<close>

lemma not_alnum_colon: "\<not> alnum CHR '':''"
  by (simp add: alnum_def)

lemma not_alnum_slash: "\<not> alnum CHR ''/''"
  by (simp add: alnum_def)

lemma alnum_not_ipfs_scheme: "list_all alnum c \<Longrightarrow> \<not> startsWith c ''ipfs://''"
  using not_alnum_colon by (auto simp: startsWith_def prefix_def list_all_iff)

lemma alnum_not_https_scheme: "list_all alnum c \<Longrightarrow> \<not> startsWith c ''https://''"
  using not_alnum_colon by (auto simp: startsWith_def prefix_def list_all_iff)

lemma extract_cid_raw: "list_all alnum c \<Longrightarrow> extract_cid c = Some c"
  by (simp add: extract_cid_def alnum_not_ipfs_scheme alnum_not_https_scheme)

lemma extract_cid_ipfs_uri: "extract_cid (''ipfs://'' @ c) = Some c"
  by (simp add: extract_cid_def startsWith_def)

lemma match_ipfs_skip: "CHR ''/'' \<notin> set xs \<Longrightarrow> match_ipfs (xs @ s) = match_ipfs s"
  by (induction xs) auto

lemma takeWhile_cid:
  "list_all alnum c \<Longrightarrow> rest = [] \<or> \<not> alnum (hd rest) \<Longrightarrow> takeWhile alnum (c @ rest) = c"
  by (cases rest) (auto simp: list_all_iff takeWhile_append2)

lemma match_ipfs_here:
  "c \<noteq> [] \<Longrightarrow> list_all alnum c \<Longrightarrow> rest = [] \<or> \<not> alnum (hd rest) \<Longrightarrow>
   match_ipfs (''/ipfs/'' @ c @ rest) = Some c"
  using takeWhile_cid [of c rest] by simp

lemma host_not_ipfs_prefix:
  assumes "CHR ''/'' \<notin> set host" and "host \<noteq> ''ipfs''"
  shows "\<not> prefix ''ipfs/'' (host @ CHR ''/'' # t)"
proof
  assume "prefix ''ipfs/'' (host @ CHR ''/'' # t)"
  then obtain zs where eq: "host @ CHR ''/'' # t = ''ipfs/'' @ zs" by (auto simp: prefix_def)
  show False
  proof (cases "length host < 4")
    case True
    from eq have "(host @ CHR ''/'' # t) ! length host = (''ipfs/'' @ zs) ! length host" by simp
    then have "CHR ''/'' = (''ipfs/'' @ zs) ! length host" by simp
    with True show False
      by (cases "length host"; simp; cases "length host - 1"; simp; cases "length host - 2"; simp; cases "length host - 3"; simp)
  next
    case False
    then have len: "4 \<le> length host" by simp
    from eq have "take 4 (host @ CHR ''/'' # t) = take 4 (''ipfs/'' @ zs)" by simp
    with len have t4: "take 4 host = ''ipfs''" by simp
    show False
    proof (cases "length host = 4")
      case True
      with t4 have "host = ''ipfs''" by simp
      with assms show False by simp
    next
      case False
      with len have "4 < length host" by simp
      moreover from eq have "(host @ CHR ''/'' # t) ! 4 = (''ipfs/'' @ zs) ! 4" by simp
      ultimately have "host ! 4 = CHR ''/''" by (simp add: nth_append)
      with \<open>4 < length host\<close> assms(1) show False by (metis nth_mem)
    qed
  qed
qed

lemma match_ipfs_gateway_url:
  assumes "c \<noteq> []" "list_all alnum c" "rest = [] \<or> \<not> alnum (hd rest)"
    "CHR ''/'' \<notin> set host" "host \<noteq> ''ipfs''"
  shows "match_ipfs (''https://'' @ host @ ''/ipfs/'' @ c @ rest) = Some c"
proof -
  have "match_ipfs (''https://'' @ host @ ''/ipfs/'' @ c @ rest) =
          match_ipfs (host @ ''/ipfs/'' @ c @ rest)"
    using host_not_ipfs_prefix [OF assms(4,5), of "''ipfs/'' @ c @ rest"] by simp
  also have "\<dots> = match_ipfs (''/ipfs/'' @ c @ rest)"
    using assms(4) by (rule match_ipfs_skip)
  also have "\<dots> = Some c" using assms(1-3) by (rule match_ipfs_here)
  finally show ?thesis .
qed

lemma extract_cid_gateway_url:
  assumes "c \<noteq> []" "list_all alnum c" "rest = [] \<or> \<not> alnum (hd rest)"
    "CHR ''/'' \<notin> set host" "host \<noteq> ''ipfs''"
  shows "extract_cid (''https://'' @ host @ ''/ipfs/'' @ c @ rest) = Some c"
  using match_ipfs_gateway_url [OF assms]
  by (simp add: extract_cid_def startsWith_def)

text \<open>
  C8. For every content identifier \<open>c\<close> (a non-empty alphanumeric string), the raw
  identifier, the URI \<^verbatim>\<open>ipfs://c\<close> and an https gateway URL \<^verbatim>\<open>https://host/ipfs/c...\<close>
  normalise to the same identifier \<open>c\<close>, and \<^verbatim>\<open>fetchFromIPFS\<close> behaves identically on
  all three and on \<^verbatim>\<open>toIPFSUri(c)\<close>: it issues the lookup for \<open>c\<close>.
\<close>

theorem C8_reference_forms_normalise_alike:
  assumes "is_cid c" and "CHR ''/'' \<notin> set host" and "host \<noteq> ''ipfs''"
    and "rest = [] \<or> \<not> alnum (hd rest)"
  shows "extract_cid c = Some c
   \<and> extract_cid (''ipfs://'' @ c) = Some c
   \<and> extract_cid (''https://'' @ host @ ''/ipfs/'' @ c @ rest) = Some c
   \<and> toIPFSUri c = ''ipfs://'' @ c
   \<and> fetchFromIPFS env c log = api_lookup env c log
   \<and> fetchFromIPFS env (''ipfs://'' @ c) log = fetchFromIPFS env c log
   \<and> fetchFromIPFS env (''https://'' @ host @ ''/ipfs/'' @ c @ rest) log = fetchFromIPFS env c log
   \<and> fetchFromIPFS env (toIPFSUri c) log = fetchFromIPFS env c log"
proof -
  from assms(1) have ne: "c \<noteq> []" and al: "list_all alnum c" by (simp_all add: is_cid_def)
  have raw: "extract_cid c = Some c" using al by (rule extract_cid_raw)
  have uri: "extract_cid (''ipfs://'' @ c) = Some c" by (rule extract_cid_ipfs_uri)
  have url: "extract_cid (''https://'' @ host @ ''/ipfs/'' @ c @ rest) = Some c"
    using ne al assms(4,2,3) by (rule extract_cid_gateway_url)
  have to: "toIPFSUri c = ''ipfs://'' @ c"
    using al by (simp add: toIPFSUri_def alnum_not_ipfs_scheme)
  have f_raw: "fetchFromIPFS env c log = api_lookup env c log"
    using ne raw by (simp add: fetchFromIPFS_def)
  have f_uri: "fetchFromIPFS env (''ipfs://'' @ c) log = api_lookup env c log"
    using uri by (simp add: fetchFromIPFS_def)
  have f_url: "fetchFromIPFS env (''https://'' @ host @ ''/ipfs/'' @ c @ rest) log =
                 api_lookup env c log"
    using url by (simp add: fetchFromIPFS_def)
  show ?thesis using raw uri url to f_raw f_uri f_url by simp
qed

theorem C8_witness:
  "is_cid ''QmGood'' \<and> CHR ''/'' \<notin> set ''ipfs.io'' \<and> ''ipfs.io'' \<noteq> ''ipfs''
   \<and> \<not> alnum (hd ''/meta.json'')
   \<and> extract_cid ''https://ipfs.io/ipfs/QmGood/meta.json'' = Some ''QmGood''
   \<and> fetchFromIPFS sample_env ''https://ipfs.io/ipfs/QmGood/meta.json'' [] =
       fetchFromIPFS sample_env ''QmGood'' []
   \<and> fetchFromIPFS sample_env (toIPFSUri ''QmGood'') [] = (Inr (Some 7), [''/api/ipfs/QmGood''])"
proof -
  have h1: "is_cid ''QmGood''" by (simp add: is_cid_def alnum_def)
  have h2: "CHR ''/'' \<notin> set ''ipfs.io''" by simp
  have h3: "''ipfs.io'' \<noteq> ''ipfs''" by simp
  have h4: "''/meta.json'' = [] \<or> \<not> alnum (hd ''/meta.json'')" by (simp add: alnum_def)
  have v: "fetchFromIPFS sample_env ''QmGood'' [] = (Inr (Some 7), [''/api/ipfs/QmGood''])"
    by (simp add: eval_ipfs)
  from C8_reference_forms_normalise_alike [OF h1 h2 h3 h4, of sample_env "[]"]
  show ?thesis using h1 h4 v by simp
qed

section \<open>Properties of the metadata endpoint\<close>

lemma try_gateways_failed_attempt:
  assumes "attempt_result env (gateway_req cid g) = None"
  shows "\<exists>le'. try_gateways env cid (g # gs) cache log le =
               try_gateways env cid gs cache (log @ [gateway_req cid g]) le'"
  using assms by (auto simp add: attempt_result_def split: sum.splits if_splits)

lemma try_gateways_good_attempt:
  assumes "attempt_result env (gateway_req cid g) = Some d"
  shows "try_gateways env cid (g # gs) cache log le =
           (Some d, cache(cid \<mapsto> \<lparr> data = d, timestamp = now_store env \<rparr>),
            log @ [gateway_req cid g], le)"
  using assms by (auto simp add: attempt_result_def split: sum.splits if_splits)

lemma gateway_spec_failed:
  assumes "attempt_result env (gateway_req cid g) = None"
  shows "gateway_spec env cid (g # gs) cache log =
           gateway_spec env cid gs cache (log @ [gateway_req cid g])"
  using assms by (simp add: gateway_spec_def split: option.split)

lemma gateway_spec_good:
  assumes "attempt_result env (gateway_req cid g) = Some d"
  shows "gateway_spec env cid (g # gs) cache log =
           (Some d, cache(cid \<mapsto> \<lparr> data = d, timestamp = now_store env \<rparr>),
            log @ [gateway_req cid g])"
  using assms by (simp add: gateway_spec_def)

lemma try_gateways_spec:
  "loop_outcome (try_gateways env cid gs cache log le) = gateway_spec env cid gs cache log"
proof (induction gs arbitrary: log le)
  case Nil
  show ?case by (simp add: loop_outcome_def gateway_spec_def)
next
  case (Cons g gs)
  show ?case
  proof (cases "attempt_result env (gateway_req cid g)")
    case None
    from try_gateways_failed_attempt [OF None] obtain le' where
      "try_gateways env cid (g # gs) cache log le =
         try_gateways env cid gs cache (log @ [gateway_req cid g]) le'" by blast
    then have "loop_outcome (try_gateways env cid (g # gs) cache log le) =
                 loop_outcome (try_gateways env cid gs cache (log @ [gateway_req cid g]) le')"
      by (simp only:)
    also have "\<dots> = gateway_spec env cid gs cache (log @ [gateway_req cid g])"
      by (rule Cons.IH)
    also have "\<dots> = gateway_spec env cid (g # gs) cache log"
      by (rule gateway_spec_failed [OF None, symmetric])
    finally show ?thesis .
  next
    case (Some d)
    show ?thesis
      by (simp only: try_gateways_good_attempt [OF Some] gateway_spec_good [OF Some])
         (simp add: loop_outcome_def)
  qed
qed


lemma GET_uncached:
  assumes "cid \<noteq> []" and "uncached env cache cid"
  shows "GET env (Inr cid) cache =
           (case gateway_spec env cid IPFS_GATEWAYS cache [] of
              (Some d, cache', log) \<Rightarrow> (\<lparr> status = 200, body = Document d \<rparr>, cache', log)
            | (None, cache', log) \<Rightarrow>
                (\<lparr> status = 502, body = ErrorBody ''Failed to fetch from IPFS'' \<rparr>, cache', log))"
proof -
  have miss: "\<not> (case cache cid of None \<Rightarrow> False
                 | Some cached \<Rightarrow> now_check env - timestamp cached < CACHE_TTL)"
    using assms(2) by (simp add: uncached_def split: option.splits)
  obtain d c l e where t: "try_gateways env cid IPFS_GATEWAYS cache [] None = (d, c, l, e)"
    by (metis prod_cases4)
  then have "gateway_spec env cid IPFS_GATEWAYS cache [] = (d, c, l)"
    using try_gateways_spec [of env cid IPFS_GATEWAYS cache "[]" None]
    by (simp add: loop_outcome_def)
  then show ?thesis
    using assms(1) miss t by (simp add: GET_def split: option.split)
qed

lemma find_takeWhile_prefix:
  "List.find Q xs = Some g \<Longrightarrow> prefix (takeWhile (\<lambda>x. \<not> Q x) xs @ [g]) xs"
  by (induction xs) (auto split: if_splits)

lemma find_Some_holds: "List.find Q xs = Some g \<Longrightarrow> Q g \<and> g \<in> set xs"
  by (induction xs) (auto split: if_splits)

lemma timeout_gateway_req: "timeout_ms (gateway_req cid g) = 10000"
  by (simp add: gateway_req_def)

text \<open>
  C5. For a request with a non-empty identifier that the cache does not answer, the
  gateways are tried in the order of \<^verbatim>\<open>IPFS_GATEWAYS\<close>, each attempt with a timeout of
  10000 ms: the requests made are a prefix of the gateway list. The reply is 200 with
  the document of the first gateway whose attempt succeeds (and that document is
  cached); it is the 502 error exactly when every gateway attempt has failed.
\<close>

theorem C5_gateways_tried_in_priority_order:
  assumes "cid \<noteq> []" and "uncached env cache cid"
  shows "GET env (Inr cid) cache =
     (case List.find (\<lambda>g. attempt_result env (gateway_req cid g) \<noteq> None) IPFS_GATEWAYS of
        None \<Rightarrow>
          (\<lparr> status = 502, body = ErrorBody ''Failed to fetch from IPFS'' \<rparr>, cache,
           map (gateway_req cid) IPFS_GATEWAYS)
      | Some g \<Rightarrow>
          (\<lparr> status = 200, body = Document (the (attempt_result env (gateway_req cid g))) \<rparr>,
           cache(cid \<mapsto> \<lparr> data = the (attempt_result env (gateway_req cid g)),
                           timestamp = now_store env \<rparr>),
           map (gateway_req cid)
             (takeWhile (\<lambda>g. attempt_result env (gateway_req cid g) = None) IPFS_GATEWAYS @ [g])))
   \<and> prefix (snd (snd (GET env (Inr cid) cache))) (map (gateway_req cid) IPFS_GATEWAYS)
   \<and> list_all (\<lambda>r. timeout_ms r = 10000) (snd (snd (GET env (Inr cid) cache)))
   \<and> (status (fst (GET env (Inr cid) cache)) = 502 \<longleftrightarrow>
        list_all (\<lambda>g. attempt_result env (gateway_req cid g) = None) IPFS_GATEWAYS)"
proof -
  let ?Q = "\<lambda>g. attempt_result env (gateway_req cid g) \<noteq> None"
  note G = GET_uncached [OF assms]
  show ?thesis
  proof (cases "List.find ?Q IPFS_GATEWAYS")
    case None
    then have all: "list_all (\<lambda>g. attempt_result env (gateway_req cid g) = None) IPFS_GATEWAYS"
      by (simp add: find_None_iff list_all_iff)
    show ?thesis
      using None all by (simp add: G gateway_spec_def list_all_iff timeout_gateway_req)
  next
    case (Some g)
    from find_Some_holds [OF Some] obtain d where
      d: "attempt_result env (gateway_req cid g) = Some d" and mem: "g \<in> set IPFS_GATEWAYS"
      by auto
    have pre: "prefix (takeWhile (\<lambda>g. attempt_result env (gateway_req cid g) = None) IPFS_GATEWAYS @ [g])
                 IPFS_GATEWAYS"
      using find_takeWhile_prefix [OF Some] by simp
    then have pre': "prefix (map (gateway_req cid)
        (takeWhile (\<lambda>g. attempt_result env (gateway_req cid g) = None) IPFS_GATEWAYS @ [g]))
        (map (gateway_req cid) IPFS_GATEWAYS)"
      by (rule map_mono_prefix)
    have notall: "\<not> list_all (\<lambda>g. attempt_result env (gateway_req cid g) = None) IPFS_GATEWAYS"
      using d mem by (auto simp: list_all_iff)
    have eq: "GET env (Inr cid) cache =
       (\<lparr> status = 200, body = Document d \<rparr>,
        cache(cid \<mapsto> \<lparr> data = d, timestamp = now_store env \<rparr>),
        map (gateway_req cid)
          (takeWhile (\<lambda>g. attempt_result env (gateway_req cid g) = None) IPFS_GATEWAYS @ [g]))"
      using Some d by (simp add: G gateway_spec_def)
    show ?thesis
      unfolding eq using Some d pre' notall
      by (simp add: list_all_iff timeout_gateway_req del: map_append)
  qed
qed


lemma GET_ok_serves:
  assumes "upstream_serves env cid d" and "cache_holds cache cid d"
    and "GET env (Inr cid) cache = (reply, cache', log)" and "status reply = 200"
  shows "reply = \<lparr> status = 200, body = Document d \<rparr> \<and> cache_holds cache' cid d"
proof -
  have ne: "cid \<noteq> []" using assms(3,4) by (auto simp: GET_def)
  show ?thesis
  proof (cases "uncached env cache cid")
    case False
    then obtain e where e: "cache cid = Some e" "now_check env - timestamp e < CACHE_TTL"
      by (auto simp: uncached_def split: option.splits)
    with assms(2) have "data e = d" by (simp add: cache_holds_def)
    with e ne assms(2,3) show ?thesis by (auto simp: GET_def)
  next
    case True
    let ?Q = "\<lambda>g. attempt_result env (gateway_req cid g) \<noteq> None"
    note G = GET_uncached [OF ne True]
    show ?thesis
    proof (cases "List.find ?Q IPFS_GATEWAYS")
      case None
      with assms(3,4) show ?thesis by (auto simp: G gateway_spec_def)
    next
      case (Some g)
      from find_Some_holds [OF Some] obtain d' where
        d': "attempt_result env (gateway_req cid g) = Some d'" and mem: "g \<in> set IPFS_GATEWAYS"
        by auto
      from assms(1) mem d' have "d' = d" by (auto simp: upstream_serves_def list_all_iff)
      with Some d' assms(3) show ?thesis
        by (auto simp: G gateway_spec_def cache_holds_def)
    qed
  qed
qed

lemma GET_ok_cached:
  assumes "GET env (Inr cid) cache = (reply, cache', log)" and "status reply = 200"
  shows "cache' cid \<noteq> None \<and> reply = \<lparr> status = 200, body = Document (data (the (cache' cid))) \<rparr>
         \<and> (uncached env cache cid \<longrightarrow> timestamp (the (cache' cid)) = now_store env)"
proof -
  have ne: "cid \<noteq> []" using assms by (auto simp: GET_def)
  show ?thesis
  proof (cases "uncached env cache cid")
    case False
    then obtain e where e: "cache cid = Some e" "now_check env - timestamp e < CACHE_TTL"
      by (auto simp: uncached_def split: option.splits)
    with ne assms(1) False show ?thesis by (auto simp: GET_def)
  next
    case True
    let ?Q = "\<lambda>g. attempt_result env (gateway_req cid g) \<noteq> None"
    note G = GET_uncached [OF ne True]
    show ?thesis
    proof (cases "List.find ?Q IPFS_GATEWAYS")
      case None
      with assms show ?thesis by (auto simp: G gateway_spec_def)
    next
      case (Some g)
      from find_Some_holds [OF Some] obtain d' where
        d': "attempt_result env (gateway_req cid g) = Some d'" by auto
      with Some assms(1) show ?thesis
        by (auto simp: G gateway_spec_def)
    qed
  qed
qed

lemma GET_cache_hit:
  assumes "cid \<noteq> []" and "cache cid = Some e" and "now_check env - timestamp e < CACHE_TTL"
  shows "GET env (Inr cid) cache = (\<lparr> status = 200, body = Document (data e) \<rparr>, cache, [])"
  using assms by (simp add: GET_def)

text \<open>
  C9. After a GET that answered 200, the cache has an entry for the identifier with the
  document returned (stamped with the time of storing when the request went upstream),
  and any later GET for the same identifier made while \<^verbatim>\<open>now - timestamp < CACHE_TTL\<close>
  (five minutes) returns the identical reply from the cache, with no upstream request
  and the cache unchanged. Resolution is idempotent beyond the TTL too as far as content
  addressing holds upstream: when every successful gateway attempt for the identifier
  yields the document \<open>d\<close> (and so does any entry already cached), two successive
  successful GETs return the same reply, the document \<open>d\<close>.
\<close>

theorem C9_resolution_idempotent_and_cached:
  "(GET env1 (Inr cid) cache0 = (reply1, cache1, log1) \<and> status reply1 = 200 \<longrightarrow>
      cache1 cid \<noteq> None
      \<and> body reply1 = Document (data (the (cache1 cid)))
      \<and> (uncached env1 cache0 cid \<longrightarrow> timestamp (the (cache1 cid)) = now_store env1)
      \<and> (now_check env2 - timestamp (the (cache1 cid)) < CACHE_TTL \<longrightarrow>
           GET env2 (Inr cid) cache1 = (reply1, cache1, [])))
   \<and> (upstream_serves env1 cid d \<and> upstream_serves env2 cid d \<and> cache_holds cache0 cid d
      \<and> GET env1 (Inr cid) cache0 = (reply1, cache1, log1) \<and> status reply1 = 200
      \<and> GET env2 (Inr cid) cache1 = (reply2, cache2, log2) \<and> status reply2 = 200 \<longrightarrow>
      reply2 = reply1 \<and> body reply1 = Document d)"
proof (intro conjI impI)
  assume a: "GET env1 (Inr cid) cache0 = (reply1, cache1, log1) \<and> status reply1 = 200"
  then have ne: "cid \<noteq> []" by (auto simp: GET_def)
  from a GET_ok_cached [of env1 cid cache0 reply1 cache1 log1]
  have c: "cache1 cid \<noteq> None"
    and r: "reply1 = \<lparr> status = 200, body = Document (data (the (cache1 cid))) \<rparr>"
    and t: "uncached env1 cache0 cid \<longrightarrow> timestamp (the (cache1 cid)) = now_store env1"
    by simp_all
  show "cache1 cid \<noteq> None" by (rule c)
  show "body reply1 = Document (data (the (cache1 cid)))" by (subst r) simp
  show "timestamp (the (cache1 cid)) = now_store env1" if "uncached env1 cache0 cid"
    using t that by simp
  show "GET env2 (Inr cid) cache1 = (reply1, cache1, [])"
    if "now_check env2 - timestamp (the (cache1 cid)) < CACHE_TTL"
  proof -
    from c obtain e where e: "cache1 cid = Some e" by auto
    with that have "now_check env2 - timestamp e < CACHE_TTL" by simp
    from GET_cache_hit [of cid cache1 e env2, OF ne e this] r e show ?thesis by simp
  qed
next
  assume b: "upstream_serves env1 cid d \<and> upstream_serves env2 cid d \<and> cache_holds cache0 cid d
      \<and> GET env1 (Inr cid) cache0 = (reply1, cache1, log1) \<and> status reply1 = 200
      \<and> GET env2 (Inr cid) cache1 = (reply2, cache2, log2) \<and> status reply2 = 200"
  then have 1: "reply1 = \<lparr> status = 200, body = Document d \<rparr> \<and> cache_holds cache1 cid d"
    using GET_ok_serves [of env1 cid d cache0 reply1 cache1 log1] by simp
  with b have 2: "reply2 = \<lparr> status = 200, body = Document d \<rparr> \<and> cache_holds cache2 cid d"
    using GET_ok_serves [of env2 cid d cache1 reply2 cache2 log2] by simp
  from 1 2 show "reply2 = reply1" by simp
  from 1 show "body reply1 = Document d" by simp
qed


lemmas eval_GET = GET_def IPFS_GATEWAYS_def gateway_req_def sample_server_def
  sample_gateway_fetch_def CACHE_TTL_def uncached_def attempt_result_def

theorem C5_witness:
  "''QmDoc'' \<noteq> [] \<and> uncached (sample_server 0 1000) Map.empty ''QmDoc''
   \<and> fst (GET (sample_server 0 1000) (Inr ''QmDoc'') Map.empty) =
        \<lparr> status = 200, body = Document 42 \<rparr>
   \<and> snd (snd (GET (sample_server 0 1000) (Inr ''QmDoc'') Map.empty)) =
        [gateway_req ''QmDoc'' ''https://gateway.pinata.cloud/ipfs'',
         gateway_req ''QmDoc'' ''https://ipfs.io/ipfs'']
   \<and> ''QmNone'' \<noteq> [] \<and> uncached (sample_server 0 1000) Map.empty ''QmNone''
   \<and> GET (sample_server 0 1000) (Inr ''QmNone'') Map.empty =
        (\<lparr> status = 502, body = ErrorBody ''Failed to fetch from IPFS'' \<rparr>, Map.empty,
         [gateway_req ''QmNone'' ''https://gateway.pinata.cloud/ipfs'',
          gateway_req ''QmNone'' ''https://ipfs.io/ipfs'',
          gateway_req ''QmNone'' ''https://cloudflare-ipfs.com/ipfs''])"
proof -
  have n1: "''QmDoc'' \<noteq> []" and n2: "''QmNone'' \<noteq> []" by simp_all
  have u1: "uncached (sample_server 0 1000) Map.empty ''QmDoc''"
    and u2: "uncached (sample_server 0 1000) Map.empty ''QmNone''"
    by (simp_all add: uncached_def)
  from C5_gateways_tried_in_priority_order [OF n1 u1]
       C5_gateways_tried_in_priority_order [OF n2 u2]
  show ?thesis
    using u1 u2
    by (simp add: IPFS_GATEWAYS_def gateway_req_def sample_server_def
        sample_gateway_fetch_def attempt_result_def)
qed

theorem C9_witness:
  "GET (sample_server 0 1000) (Inr ''QmDoc'') Map.empty =
     (\<lparr> status = 200, body = Document 42 \<rparr>,
      [''QmDoc'' \<mapsto> \<lparr> data = 42, timestamp = 1000 \<rparr>],
      [gateway_req ''QmDoc'' ''https://gateway.pinata.cloud/ipfs'',
       gateway_req ''QmDoc'' ''https://ipfs.io/ipfs''])
   \<and> uncached (sample_server 0 1000) Map.empty ''QmDoc''
   \<and> now_check (sample_server 200000 200500) - 1000 < CACHE_TTL
   \<and> GET (sample_server 200000 200500) (Inr ''QmDoc'')
        [''QmDoc'' \<mapsto> \<lparr> data = 42, timestamp = 1000 \<rparr>] =
      (\<lparr> status = 200, body = Document 42 \<rparr>,
       [''QmDoc'' \<mapsto> \<lparr> data = 42, timestamp = 1000 \<rparr>], [])
   \<and> upstream_serves (sample_server 0 1000) ''QmDoc'' 42
   \<and> upstream_serves (sample_server 400000 400700) ''QmDoc'' 42
   \<and> cache_holds Map.empty ''QmDoc'' (42 :: nat)
   \<and> GET (sample_server 400000 400700) (Inr ''QmDoc'')
        [''QmDoc'' \<mapsto> \<lparr> data = 42, timestamp = 1000 \<rparr>] =
      (\<lparr> status = 200, body = Document 42 \<rparr>,
       [''QmDoc'' \<mapsto> \<lparr> data = 42, timestamp = 400700 \<rparr>],
       [gateway_req ''QmDoc'' ''https://gateway.pinata.cloud/ipfs'',
        gateway_req ''QmDoc'' ''https://ipfs.io/ipfs''])"
proof -
  let ?c1 = "[''QmDoc'' \<mapsto> \<lparr> data = 42 :: nat, timestamp = 1000 \<rparr>]"
  let ?r = "\<lparr> status = 200, body = Document (42 :: nat) \<rparr>"
  let ?log = "[gateway_req ''QmDoc'' ''https://gateway.pinata.cloud/ipfs'',
       gateway_req ''QmDoc'' ''https://ipfs.io/ipfs'']"
  have g1: "GET (sample_server 0 1000) (Inr ''QmDoc'') Map.empty = (?r, ?c1, ?log)"
    by (simp add: eval_GET)
  have g3: "GET (sample_server 400000 400700) (Inr ''QmDoc'') ?c1 =
      (?r, [''QmDoc'' \<mapsto> \<lparr> data = 42, timestamp = 400700 \<rparr>], ?log)"
    by (simp add: eval_GET)
  have u: "uncached (sample_server 0 1000) Map.empty ''QmDoc''"
    by (simp add: uncached_def)
  have t: "now_check (sample_server 200000 200500) - 1000 < CACHE_TTL"
    by (simp add: sample_server_def CACHE_TTL_def)
  have s1: "upstream_serves (sample_server 0 1000) ''QmDoc'' 42"
    and s2: "upstream_serves (sample_server 400000 400700) ''QmDoc'' 42"
    by (simp_all add: upstream_serves_def eval_GET)
  have h: "cache_holds Map.empty ''QmDoc'' (42 :: nat)"
    by (simp add: cache_holds_def)
  from C9_resolution_idempotent_and_cached
    [of "sample_server 0 1000" "''QmDoc''" Map.empty ?r ?c1 ?log
        "sample_server 200000 200500" 42 ?r ?c1 "[]"]
  have g2: "GET (sample_server 200000 200500) (Inr ''QmDoc'') ?c1 = (?r, ?c1, [])"
    using g1 t by simp
  from C9_resolution_idempotent_and_cached
    [of "sample_server 0 1000" "''QmDoc''" Map.empty ?r ?c1 ?log
        "sample_server 400000 400700" 42
        "fst (GET (sample_server 400000 400700) (Inr ''QmDoc'') ?c1)"
        "fst (snd (GET (sample_server 400000 400700) (Inr ''QmDoc'') ?c1))"
        "snd (snd (GET (sample_server 400000 400700) (Inr ''QmDoc'') ?c1))"]
  have g4: "fst (GET (sample_server 400000 400700) (Inr ''QmDoc'') ?c1) = ?r"
    using g1 g3 s1 s2 h by simp
  show ?thesis using g1 g2 g3 g4 u t s1 s2 h by simp
qed

section \<open>Properties of the action gate and of the write handlers\<close>

lemmas eval_view = all_voted_view_def outsider_view_def issuer_view_def sample_bounty_in_def
  sample_claim_def detail_voting_section_def claim_page_action_def claim_page_resolve_button_def
  canResolveVote_def allVotesCast_def totalVoted_def isVotingExpired_def votingDeadline_def
  votingClaimId_def isVotingOnThis_def claim_found_def hasStake_def isIssuer_def truthy_bool_def
  truthy_string_def canStartVote_def OPEN_def VOTING_def toLowerCase_def lower_char_def

lemmas eval_sources = page_view_of_def page_voteState_def useVoteState_def useHasVoted_def
  round_sources_def demo_sources_def voted_in_round_1_def vote_of_tuple_def

lemma detail_resolve_iff:
  assumes "\<not> isLoading v" and "bounty v = Some b" and "state b = VOTING"
    and "voteState v = Some vs" and "deadline vs > 0"
  shows "detail_voting_section v = Some ResolveVoteButton \<longleftrightarrow>
           now v > deadline vs * 1000 \<or> yes vs + no vs \<ge> totalStaked b"
  using assms
  by (auto simp add: detail_voting_section_def canResolveVote_def allVotesCast_def
      totalVoted_def isVotingExpired_def votingDeadline_def)

lemma claim_page_resolve_iff:
  assumes "\<not> isLoading v" and "bounty v = Some b" and "state b = VOTING"
    and "voteState v = Some vs" and "deadline vs > 0"
  shows "claim_page_resolve_button v \<longleftrightarrow>
           claim_found v \<and> route_claimId v = Some (claimId vs) \<and> now v > deadline vs * 1000"
  using assms
  by (auto simp add: claim_page_resolve_button_def isVotingOnThis_def votingClaimId_def
      isVotingExpired_def votingDeadline_def)

text \<open>
  C1. On the bounty page the Resolve Vote button is offered in VOTING exactly when the
  deadline has passed or yes + no has reached totalStaked (\<open>detail_resolve_iff\<close>). The
  claim page offers it on the deadline alone: with yes + no = totalStaked before the
  deadline, on the page of the very claim under vote, the bounty page offers the
  resolve action and the claim page does not.
\<close>

theorem C1_claim_page_ignores_all_votes_cast:
  "map_option state (bounty all_voted_view) = Some VOTING
   \<and> totalVoted all_voted_view = 10
   \<and> map_option totalStaked (bounty all_voted_view) = Some 10
   \<and> \<not> isVotingExpired all_voted_view
   \<and> claim_found all_voted_view \<and> isVotingOnThis all_voted_view
   \<and> detail_voting_section all_voted_view = Some ResolveVoteButton
   \<and> \<not> claim_page_resolve_button all_voted_view"
  by (simp add: eval_view)






lemma not_offered_when_voted:
  assumes "hasVoted v = Some True"
  shows "detail_voting_section v \<noteq> Some VoteButtons \<and> claim_page_action v \<noteq> Some VoteYesNoButtons"
  using assms
  by (auto simp: detail_voting_section_def claim_page_action_def truthy_bool_def
      split: option.splits)

lemma not_offered_without_stake:
  assumes "\<not> hasStake v"
  shows "detail_voting_section v \<noteq> Some VoteButtons \<and> claim_page_action v \<noteq> Some VoteYesNoButtons"
  using assms
  by (auto simp: detail_voting_section_def claim_page_action_def split: option.splits)

lemma live_flag_is_of_current_round:
  assumes "\<not> DEMO_MODE s" and "bountyAddress_param s \<noteq> []"
    and "account_address s = Some u" and "u \<noteq> []"
    and "currentVote_read s = Some (c, y, n, d, r)"
  shows "voteState (page_view_of s) =
           Some \<lparr> claimId = c, yes = y, no = n, deadline = d, votingRound = r \<rparr>
         \<and> hasVoted (page_view_of s) = hasVoted_read s (bountyAddress_param s) u r"
  using assms
  by (simp add: page_view_of_def page_voteState_def useVoteState_def useHasVoted_def
      truthy_string_def vote_of_tuple_def)

lemma demo_flag_is_of_fixture:
  assumes "DEMO_MODE s" and "bountyAddress_param s \<noteq> []"
    and "account_address s = Some u" and "u \<noteq> []"
  shows "hasVoted (page_view_of s) =
           Some (map_of MOCK_USER_VOTES
                   (toLowerCase (bountyAddress_param s) @ ''-'' @ toLowerCase u) \<noteq> None)
         \<and> map_option votingRound (voteState (page_view_of s)) \<in> {None, Some 1}"
  using assms
  by (simp add: page_view_of_def page_voteState_def useVoteState_def useHasVoted_def
      truthy_string_def Let_def)

lemma offered_when_eligible:
  assumes "\<not> isLoading v" and "map_option state (bounty v) = Some VOTING"
    and "hasStake v" and "hasVoted v \<noteq> Some True"
  shows "(\<not> canResolveVote v \<longrightarrow> detail_voting_section v = Some VoteButtons)
         \<and> (isVotingOnThis v \<and> claim_found v \<longrightarrow> claim_page_action v = Some VoteYesNoButtons)"
  using assms
  by (auto simp: detail_voting_section_def claim_page_action_def truthy_bool_def
      split: option.splits)

text \<open>
  C3. Both pages ask the has-voted flag for the round of the vote state they have just
  read (\<open>page_view_of\<close>), and render the vote buttons only to a staker whose flag is not
  true: never when the flag is true, never to an address without stake. In live mode
  the flag is the contract read \<^verbatim>\<open>account_Round_HasVoted(user, round)\<close> for the current
  round, so a funder who voted in round \<open>r\<close> is not offered the vote while the current
  round is \<open>r\<close> and is offered it again once the current round is \<open>r + 1\<close>, in which the
  funder has not voted (on the bounty page as long as the vote cannot be resolved yet,
  on the claim page when the claim is the one under vote). In demo mode every vote
  state has round 1 and the flag is the fixture's entry for the bounty and the user.
\<close>

theorem C3_vote_offer_scoped_by_round:
  "(hasVoted (page_view_of s1) = Some True \<longrightarrow>
      detail_voting_section (page_view_of s1) \<noteq> Some VoteButtons
      \<and> claim_page_action (page_view_of s1) \<noteq> Some VoteYesNoButtons)
   \<and> (\<not> hasStake (page_view_of s2) \<longrightarrow>
      detail_voting_section (page_view_of s2) \<noteq> Some VoteButtons
      \<and> claim_page_action (page_view_of s2) \<noteq> Some VoteYesNoButtons)
   \<and> (\<not> DEMO_MODE s3 \<and> bountyAddress_param s3 \<noteq> [] \<and> account_address s3 = Some u3 \<and> u3 \<noteq> []
      \<and> currentVote_read s3 = Some (c3, y3, n3, d3, r3) \<longrightarrow>
      map_option votingRound (voteState (page_view_of s3)) = Some r3
      \<and> hasVoted (page_view_of s3) = hasVoted_read s3 (bountyAddress_param s3) u3 r3)
   \<and> (DEMO_MODE s4 \<and> bountyAddress_param s4 \<noteq> [] \<and> account_address s4 = Some u4 \<and> u4 \<noteq> [] \<longrightarrow>
      hasVoted (page_view_of s4) =
        Some (map_of MOCK_USER_VOTES
                (toLowerCase (bountyAddress_param s4) @ ''-'' @ toLowerCase u4) \<noteq> None)
      \<and> map_option votingRound (voteState (page_view_of s4)) \<in> {None, Some 1})
   \<and> (\<not> loading s5 \<and> map_option state (bounty_result s5) = Some VOTING
      \<and> hasStake (page_view_of s5) \<and> hasVoted (page_view_of s5) \<noteq> Some True
      \<and> \<not> canResolveVote (page_view_of s5) \<longrightarrow>
      detail_voting_section (page_view_of s5) = Some VoteButtons)
   \<and> (\<not> loading s6 \<and> hasStake (page_view_of s6) \<and> hasVoted (page_view_of s6) \<noteq> Some True
      \<and> isVotingOnThis (page_view_of s6) \<and> claim_found (page_view_of s6) \<longrightarrow>
      claim_page_action (page_view_of s6) = Some VoteYesNoButtons)
   \<and> (\<not> DEMO_MODE s \<and> \<not> loading s \<and> bountyAddress_param s \<noteq> []
      \<and> account_address s = Some u \<and> u \<noteq> []
      \<and> map_option state (bounty_result s) = Some VOTING
      \<and> stake_result s = Some k \<and> 0 < k
      \<and> hasVoted_read s (bountyAddress_param s) u r = Some True
      \<and> hasVoted_read s (bountyAddress_param s) u (r + 1) = Some False
      \<and> \<not> canResolveVote (page_view_of (s \<lparr> currentVote_read := Some (c', y', n', d', r + 1) \<rparr>))
      \<longrightarrow>
      detail_voting_section (page_view_of (s \<lparr> currentVote_read := Some (c, y, n, d, r) \<rparr>))
        \<noteq> Some VoteButtons
      \<and> claim_page_action (page_view_of (s \<lparr> currentVote_read := Some (c, y, n, d, r) \<rparr>))
        \<noteq> Some VoteYesNoButtons
      \<and> detail_voting_section (page_view_of (s \<lparr> currentVote_read := Some (c', y', n', d', r + 1) \<rparr>))
        = Some VoteButtons
      \<and> (isVotingOnThis (page_view_of (s \<lparr> currentVote_read := Some (c', y', n', d', r + 1) \<rparr>))
          \<and> claim_found (page_view_of (s \<lparr> currentVote_read := Some (c', y', n', d', r + 1) \<rparr>))
          \<longrightarrow>
          claim_page_action (page_view_of (s \<lparr> currentVote_read := Some (c', y', n', d', r + 1) \<rparr>))
            = Some VoteYesNoButtons))"
proof (intro conjI impI)
  assume "hasVoted (page_view_of s1) = Some True"
  from not_offered_when_voted [OF this]
  show "detail_voting_section (page_view_of s1) \<noteq> Some VoteButtons"
    and "claim_page_action (page_view_of s1) \<noteq> Some VoteYesNoButtons"
    by simp_all
next
  assume "\<not> hasStake (page_view_of s2)"
  from not_offered_without_stake [OF this]
  show "detail_voting_section (page_view_of s2) \<noteq> Some VoteButtons"
    and "claim_page_action (page_view_of s2) \<noteq> Some VoteYesNoButtons"
    by simp_all
next
  assume a: "\<not> DEMO_MODE s3 \<and> bountyAddress_param s3 \<noteq> [] \<and> account_address s3 = Some u3
      \<and> u3 \<noteq> [] \<and> currentVote_read s3 = Some (c3, y3, n3, d3, r3)"
  then have "voteState (page_view_of s3) =
           Some \<lparr> claimId = c3, yes = y3, no = n3, deadline = d3, votingRound = r3 \<rparr>
         \<and> hasVoted (page_view_of s3) = hasVoted_read s3 (bountyAddress_param s3) u3 r3"
    using live_flag_is_of_current_round [of s3 u3 c3 y3 n3 d3 r3] by simp
  then show "map_option votingRound (voteState (page_view_of s3)) = Some r3"
    and "hasVoted (page_view_of s3) = hasVoted_read s3 (bountyAddress_param s3) u3 r3"
    by simp_all
next
  assume a: "DEMO_MODE s4 \<and> bountyAddress_param s4 \<noteq> [] \<and> account_address s4 = Some u4
      \<and> u4 \<noteq> []"
  then have d: "hasVoted (page_view_of s4) =
        Some (map_of MOCK_USER_VOTES
                (toLowerCase (bountyAddress_param s4) @ ''-'' @ toLowerCase u4) \<noteq> None)
      \<and> map_option votingRound (voteState (page_view_of s4)) \<in> {None, Some 1}"
    using demo_flag_is_of_fixture [of s4 u4] by simp
  from d show "hasVoted (page_view_of s4) =
        Some (map_of MOCK_USER_VOTES
                (toLowerCase (bountyAddress_param s4) @ ''-'' @ toLowerCase u4) \<noteq> None)"
    by simp
  from d show "map_option votingRound (voteState (page_view_of s4)) \<in> {None, Some 1}"
    by simp
next
  assume a: "\<not> loading s5 \<and> map_option state (bounty_result s5) = Some VOTING
      \<and> hasStake (page_view_of s5) \<and> hasVoted (page_view_of s5) \<noteq> Some True
      \<and> \<not> canResolveVote (page_view_of s5)"
  then have "\<not> isLoading (page_view_of s5)"
    and "map_option state (bounty (page_view_of s5)) = Some VOTING"
    by (simp_all add: page_view_of_def)
  with a show "detail_voting_section (page_view_of s5) = Some VoteButtons"
    using offered_when_eligible [of "page_view_of s5"] by simp
next
  assume a: "\<not> loading s6 \<and> hasStake (page_view_of s6) \<and> hasVoted (page_view_of s6) \<noteq> Some True
      \<and> isVotingOnThis (page_view_of s6) \<and> claim_found (page_view_of s6)"
  then have l: "\<not> isLoading (page_view_of s6)" by (simp add: page_view_of_def)
  from a have "map_option state (bounty (page_view_of s6)) = Some VOTING"
    by (auto simp: isVotingOnThis_def split: option.splits)
  with a l show "claim_page_action (page_view_of s6) = Some VoteYesNoButtons"
    using offered_when_eligible [of "page_view_of s6"] by simp
next
  assume a: "\<not> DEMO_MODE s \<and> \<not> loading s \<and> bountyAddress_param s \<noteq> []
      \<and> account_address s = Some u \<and> u \<noteq> []
      \<and> map_option state (bounty_result s) = Some VOTING
      \<and> stake_result s = Some k \<and> 0 < k
      \<and> hasVoted_read s (bountyAddress_param s) u r = Some True
      \<and> hasVoted_read s (bountyAddress_param s) u (r + 1) = Some False
      \<and> \<not> canResolveVote (page_view_of (s \<lparr> currentVote_read := Some (c', y', n', d', r + 1) \<rparr>))"
  let ?old = "s \<lparr> currentVote_read := Some (c, y, n, d, r) \<rparr>"
  let ?new = "s \<lparr> currentVote_read := Some (c', y', n', d', r + 1) \<rparr>"
  from a have "hasVoted (page_view_of ?old) = Some True"
    using live_flag_is_of_current_round [of ?old u c y n d r] by simp
  from not_offered_when_voted [OF this]
  show "detail_voting_section (page_view_of ?old) \<noteq> Some VoteButtons"
    and "claim_page_action (page_view_of ?old) \<noteq> Some VoteYesNoButtons"
    by simp_all
  from a have f: "hasVoted (page_view_of ?new) = Some False"
    using live_flag_is_of_current_round [of ?new u c' y' n' d' "r + 1"] by simp
  from a have "\<not> isLoading (page_view_of ?new)"
    and "map_option state (bounty (page_view_of ?new)) = Some VOTING"
    and "hasStake (page_view_of ?new)"
    by (simp_all add: page_view_of_def hasStake_def)
  then have o: "(\<not> canResolveVote (page_view_of ?new) \<longrightarrow>
                   detail_voting_section (page_view_of ?new) = Some VoteButtons)
         \<and> (isVotingOnThis (page_view_of ?new) \<and> claim_found (page_view_of ?new) \<longrightarrow>
                   claim_page_action (page_view_of ?new) = Some VoteYesNoButtons)"
    using f offered_when_eligible [of "page_view_of ?new"] by simp
  from o a show "detail_voting_section (page_view_of ?new) = Some VoteButtons"
    by simp
  assume "isVotingOnThis (page_view_of ?new) \<and> claim_found (page_view_of ?new)"
  with o show "claim_page_action (page_view_of ?new) = Some VoteYesNoButtons"
    by simp
qed

theorem C3_witness:
  "hasVoted (page_view_of (round_sources 1 4 (Some 4))) = Some True
   \<and> detail_voting_section (page_view_of (round_sources 1 4 (Some 4))) = Some VotedBadge
   \<and> \<not> hasStake (page_view_of (round_sources 2 0 (Some 0)))
   \<and> detail_voting_section (page_view_of (round_sources 2 0 (Some 0))) = Some NoVotingAction
   \<and> \<not> DEMO_MODE (round_sources 2 0 (Some 4))
   \<and> hasVoted (page_view_of (round_sources 2 0 (Some 4))) = Some False
   \<and> DEMO_MODE demo_sources
   \<and> hasVoted (page_view_of demo_sources) = Some True
   \<and> map_option votingRound (voteState (page_view_of demo_sources)) = Some 1
   \<and> detail_voting_section (page_view_of demo_sources) \<noteq> Some VoteButtons
   \<and> hasStake (page_view_of (round_sources 2 0 (Some 4)))
   \<and> \<not> canResolveVote (page_view_of (round_sources 2 0 (Some 4)))
   \<and> isVotingOnThis (page_view_of (round_sources 2 0 (Some 4)))
   \<and> claim_found (page_view_of (round_sources 2 0 (Some 4)))
   \<and> detail_voting_section (page_view_of (round_sources 2 0 (Some 4))) = Some VoteButtons
   \<and> claim_page_action (page_view_of (round_sources 2 0 (Some 4))) = Some VoteYesNoButtons
   \<and> voted_in_round_1 ''0xb1'' ''0xc1'' 1 = Some True
   \<and> voted_in_round_1 ''0xb1'' ''0xc1'' (1 + 1) = Some False
   \<and> detail_voting_section
       (page_view_of ((round_sources 1 4 (Some 4)) \<lparr> currentVote_read := Some (0, 4, 0, 2000000000, 1) \<rparr>))
       \<noteq> Some VoteButtons
   \<and> detail_voting_section
       (page_view_of ((round_sources 1 4 (Some 4)) \<lparr> currentVote_read := Some (0, 0, 0, 2000000000, 1 + 1) \<rparr>))
       = Some VoteButtons
   \<and> claim_page_action
       (page_view_of ((round_sources 1 4 (Some 4)) \<lparr> currentVote_read := Some (0, 0, 0, 2000000000, 1 + 1) \<rparr>))
       = Some VoteYesNoButtons"
proof -
  let ?voted = "round_sources 1 4 (Some 4)"
  let ?nostake = "round_sources 2 0 (Some 0)"
  let ?fresh = "round_sources 2 0 (Some 4)"
  have h1: "hasVoted (page_view_of ?voted) = Some True"
    by (simp add: eval_sources truthy_string_def)
  have e1: "detail_voting_section (page_view_of ?voted) = Some VotedBadge"
    by (simp add: eval_sources eval_view)
  have h2: "\<not> hasStake (page_view_of ?nostake)"
    by (simp add: eval_sources hasStake_def)
  have e2: "detail_voting_section (page_view_of ?nostake) = Some NoVotingAction"
    by (simp add: eval_sources eval_view)
  have h3: "\<not> DEMO_MODE ?fresh \<and> bountyAddress_param ?fresh \<noteq> []
      \<and> account_address ?fresh = Some ''0xc1'' \<and> ''0xc1'' \<noteq> []
      \<and> currentVote_read ?fresh = Some (0, 0, 0, 2000000000, 2)"
    by (simp add: round_sources_def)
  have h4: "DEMO_MODE demo_sources \<and> bountyAddress_param demo_sources \<noteq> []
      \<and> account_address demo_sources = Some ''0x3456789012abcdef3456789012abcdef34567890''
      \<and> ''0x3456789012abcdef3456789012abcdef34567890'' \<noteq> []"
    by (simp add: demo_sources_def mockBountyAddr_2_def)
  have e4: "hasVoted (page_view_of demo_sources) = Some True"
    and e4': "map_option votingRound (voteState (page_view_of demo_sources)) = Some 1"
    by (simp_all add: eval_sources truthy_string_def mockBountyAddr_2_def MOCK_USER_VOTES_def
        toLowerCase_def lower_char_def)
  have e3: "hasVoted (page_view_of ?fresh) = Some False"
    and r3: "hasVoted_read ?fresh (bountyAddress_param ?fresh) ''0xc1'' 2 = Some False"
    by (simp_all add: eval_sources truthy_string_def)
  have e5: "detail_voting_section (page_view_of demo_sources) \<noteq> Some VoteButtons"
    by (simp add: eval_sources eval_view truthy_string_def mockBountyAddr_2_def
        MOCK_USER_VOTES_def)
  have h5: "\<not> loading ?fresh \<and> map_option state (bounty_result ?fresh) = Some VOTING
      \<and> hasStake (page_view_of ?fresh) \<and> hasVoted (page_view_of ?fresh) \<noteq> Some True
      \<and> \<not> canResolveVote (page_view_of ?fresh)
      \<and> isVotingOnThis (page_view_of ?fresh) \<and> claim_found (page_view_of ?fresh)"
    by (simp add: eval_sources eval_view)
  have h7: "\<not> DEMO_MODE ?voted \<and> \<not> loading ?voted \<and> bountyAddress_param ?voted \<noteq> []
      \<and> account_address ?voted = Some ''0xc1''
      \<and> map_option state (bounty_result ?voted) = Some VOTING
      \<and> stake_result ?voted = Some 4
      \<and> hasVoted_read ?voted (bountyAddress_param ?voted) ''0xc1'' 1 = Some True
      \<and> hasVoted_read ?voted (bountyAddress_param ?voted) ''0xc1'' (1 + 1) = Some False
      \<and> \<not> canResolveVote
            (page_view_of (?voted \<lparr> currentVote_read := Some (0, 0, 0, 2000000000, 1 + 1) \<rparr>))"
    by (simp add: eval_sources eval_view)
  have h8: "isVotingOnThis
              (page_view_of (?voted \<lparr> currentVote_read := Some (0, 0, 0, 2000000000, 1 + 1) \<rparr>))
      \<and> claim_found
              (page_view_of (?voted \<lparr> currentVote_read := Some (0, 0, 0, 2000000000, 1 + 1) \<rparr>))"
    by (simp add: eval_sources eval_view)
  have v: "voted_in_round_1 ''0xb1'' ''0xc1'' 1 = Some True
      \<and> voted_in_round_1 ''0xb1'' ''0xc1'' (1 + 1) = Some False"
    by (simp add: voted_in_round_1_def)
  from C3_vote_offer_scoped_by_round
    [of ?voted ?nostake ?fresh "''0xc1''" 0 0 0 2000000000 2
        demo_sources "''0x3456789012abcdef3456789012abcdef34567890''"
        ?fresh ?fresh ?voted "''0xc1''" 4 1 0 0 0 2000000000 0 4 0 2000000000]
  show ?thesis
    using h1 e1 h2 e2 h3 e3 r3 h4 e4 e4' e5 h5 h7 h8 v by simp
qed

text \<open>
  C7. A create-bounty submission whose title or description is empty or white space only
  is rejected with "Title and description are required"; one whose amount is missing, or
  for which \<^verbatim>\<open>parseFloat(amount) <= 0\<close>, with "Please enter a valid amount". In both cases
  the handler returns at once: no wallet connection, no metadata upload and no contract
  write is made, and the form state is the old one with only the error message set. The
  join form rejects a missing or non-positive amount in the same way.
\<close>

theorem C7_invalid_submission_rejected_locally:
  "(trim (title f1) = [] \<or> trim (description f1) = [] \<longrightarrow>
      handleSubmit env w f1 = (f1 \<lparr> error := Some ''Title and description are required'' \<rparr>, []))
   \<and> (trim (title f2) \<noteq> [] \<and> trim (description f2) \<noteq> []
       \<and> (amount f2 = [] \<or> js_le_zero (parseFloat env (amount f2))) \<longrightarrow>
      handleSubmit env w f2 = (f2 \<lparr> error := Some ''Please enter a valid amount'' \<rparr>, []))
   \<and> (joinAmount p = [] \<or> js_le_zero (parseFloat env (joinAmount p)) \<longrightarrow>
      handleJoin env w bountyAddress p =
        (p \<lparr> page_error := Some ''Please enter a valid amount'' \<rparr>, []))"
  by (simp add: handleSubmit_def handleJoin_def)

lemma trim_white_space_only: "list_all isWhiteSpace s \<Longrightarrow> trim s = []"
proof -
  assume a: "list_all isWhiteSpace s"
  then show ?thesis
    by (auto simp: trim_def list_all_iff dest: set_dropWhileD)
qed

lemma trim_unicode_spaces: "trim [160, 65279, 8195, 12288, 8232] = []"
  by (simp add: trim_def isWhiteSpace_def)

lemma trim_keeps_inner_text: "trim (utf16 ''  Run 5k '') = utf16 ''Run 5k''"
  by (simp add: trim_def isWhiteSpace_def utf16_def)

lemma valid_submission_uploads_then_writes:
  "handleSubmit sample_submit_env outsider_wallet
     (sample_form (utf16 ''Run 5k'') (utf16 ''Photo at the finish'') (utf16 ''0.5'')) =
     (sample_form (utf16 ''Run 5k'') (utf16 ''Photo at the finish'') (utf16 ''0.5''),
      [UploadMetadata \<lparr> meta_title = utf16 ''Run 5k'',
                        meta_description = utf16 ''Photo at the finish'' \<rparr>,
       WriteContract \<lparr> account = Some ''0xd4'', target = factory,
                       functionName = ''createBounty'',
                       args = [ArgString ''ipfs://QmNew'', ArgBool True],
                       tx_value = Some 500000000000000000 \<rparr>])"
  by (simp add: handleSubmit_def sample_form_def sample_submit_env_def sample_parseFloat_def
      outsider_wallet_def resolve_target_def truthy_string_def uploadToIPFS_def toIPFSUri_of_def
      toIPFSUri_def startsWith_def trim_def isWhiteSpace_def js_le_zero_def utf16_def)

theorem C7_witness:
  "trim (title (sample_form [160, 65279] (utf16 ''Photo'') (utf16 ''0.5''))) = []
   \<and> handleSubmit sample_submit_env outsider_wallet
        (sample_form [160, 65279] (utf16 ''Photo'') (utf16 ''0.5'')) =
       ((sample_form [160, 65279] (utf16 ''Photo'') (utf16 ''0.5''))
          \<lparr> error := Some ''Title and description are required'' \<rparr>, [])
   \<and> trim (title (sample_form (utf16 ''Run'') (utf16 ''Photo'') (utf16 ''-1''))) \<noteq> []
   \<and> trim (description (sample_form (utf16 ''Run'') (utf16 ''Photo'') (utf16 ''-1''))) \<noteq> []
   \<and> js_le_zero (parseFloat sample_submit_env
        (amount (sample_form (utf16 ''Run'') (utf16 ''Photo'') (utf16 ''-1''))))
   \<and> handleSubmit sample_submit_env outsider_wallet
        (sample_form (utf16 ''Run'') (utf16 ''Photo'') (utf16 ''-1'')) =
       ((sample_form (utf16 ''Run'') (utf16 ''Photo'') (utf16 ''-1''))
          \<lparr> error := Some ''Please enter a valid amount'' \<rparr>, [])
   \<and> js_le_zero (parseFloat sample_submit_env (joinAmount (sample_join (utf16 ''0''))))
   \<and> handleJoin sample_submit_env outsider_wallet ''0xb1'' (sample_join (utf16 ''0'')) =
       ((sample_join (utf16 ''0'')) \<lparr> page_error := Some ''Please enter a valid amount'' \<rparr>, [])"
proof -
  let ?blank = "sample_form [160, 65279] (utf16 ''Photo'') (utf16 ''0.5'')"
  let ?neg = "sample_form (utf16 ''Run'') (utf16 ''Photo'') (utf16 ''-1'')"
  have h1: "trim (title ?blank) = []"
    by (simp add: sample_form_def trim_def isWhiteSpace_def)
  have h2: "trim (title ?neg) \<noteq> [] \<and> trim (description ?neg) \<noteq> []"
    by (simp add: sample_form_def trim_def isWhiteSpace_def utf16_def)
  have h3: "js_le_zero (parseFloat sample_submit_env (amount ?neg))"
    by (simp add: sample_form_def sample_submit_env_def sample_parseFloat_def js_le_zero_def
        utf16_def)
  have h4: "js_le_zero (parseFloat sample_submit_env (joinAmount (sample_join (utf16 ''0''))))"
    by (simp add: sample_join_def sample_submit_env_def sample_parseFloat_def js_le_zero_def
        utf16_def)
  from C7_invalid_submission_rejected_locally
    [of ?blank sample_submit_env outsider_wallet ?neg "sample_join (utf16 ''0'')" "''0xb1''"]
  show ?thesis using h1 h2 h3 h4 by simp
qed

end
